theory Spec2Isabelle
  imports Complex_Main
begin

section \<open>Python floats\<close>

text \<open>
  The pipeline computes with Python floats (IEEE doubles).  A float is modelled as a
  not-a-number value, one of the two infinities, or a finite number.  Rounding to the
  nearest double is not modelled (a finite result is the exact real); overflow is: a
  finite operation whose exact result exceeds the largest double gives an infinity.
  The two zeros are identified.  pandas' missing value is \<open>NaN\<close>.
\<close>

datatype pyfloat = NaN | PInf | NInf | Fin real

definition fl_max :: real where
  "fl_max = (2 ^ 53 - 1) * 2 ^ 971"

definition fl_of :: "real \<Rightarrow> pyfloat" where
  "fl_of r = (if fl_max < r then PInf else if r < - fl_max then NInf else Fin r)"

definition isna :: "pyfloat \<Rightarrow> bool" where
  "isna x = (x = NaN)"

definition isinf :: "pyfloat \<Rightarrow> bool" where
  "isinf x = (x = PInf \<or> x = NInf)"

definition isfinite :: "pyfloat \<Rightarrow> bool" where
  "isfinite x = (case x of Fin _ \<Rightarrow> True | _ \<Rightarrow> False)"

fun fneg :: "pyfloat \<Rightarrow> pyfloat" where
  "fneg NaN = NaN"
| "fneg PInf = NInf"
| "fneg NInf = PInf"
| "fneg (Fin x) = Fin (- x)"

fun fabs :: "pyfloat \<Rightarrow> pyfloat" where
  "fabs NaN = NaN"
| "fabs PInf = PInf"
| "fabs NInf = PInf"
| "fabs (Fin x) = Fin \<bar>x\<bar>"

fun fadd :: "pyfloat \<Rightarrow> pyfloat \<Rightarrow> pyfloat" where
  "fadd NaN _ = NaN"
| "fadd _ NaN = NaN"
| "fadd PInf NInf = NaN"
| "fadd NInf PInf = NaN"
| "fadd PInf _ = PInf"
| "fadd NInf _ = NInf"
| "fadd (Fin x) PInf = PInf"
| "fadd (Fin x) NInf = NInf"
| "fadd (Fin x) (Fin y) = fl_of (x + y)"

definition fsub :: "pyfloat \<Rightarrow> pyfloat \<Rightarrow> pyfloat" where
  "fsub a b = fadd a (fneg b)"

text \<open>The sign of a float: \<open>None\<close> for NaN, otherwise -1, 0 or 1.\<close>

fun fsign :: "pyfloat \<Rightarrow> int option" where
  "fsign NaN = None"
| "fsign PInf = Some 1"
| "fsign NInf = Some (- 1)"
| "fsign (Fin x) = Some (if x < 0 then - 1 else if x = 0 then 0 else 1)"

definition inf_of_sign :: "int \<Rightarrow> pyfloat" where
  "inf_of_sign s = (if s < 0 then NInf else PInf)"

fun fmul :: "pyfloat \<Rightarrow> pyfloat \<Rightarrow> pyfloat" where
  "fmul (Fin x) (Fin y) = fl_of (x * y)"
| "fmul a b =
     (case (fsign a, fsign b) of
        (Some s, Some t) \<Rightarrow> (if s * t = 0 then NaN else inf_of_sign (s * t))
      | _ \<Rightarrow> NaN)"

text \<open>
  Python's \<open>/\<close> on floats raises ZeroDivisionError whenever the divisor is zero
  (also for a NaN or infinite dividend); \<open>None\<close> is that exception.
\<close>

fun truediv :: "pyfloat \<Rightarrow> pyfloat \<Rightarrow> pyfloat option" where
  "truediv a (Fin y) =
     (if y = 0 then None
      else case a of
             Fin x \<Rightarrow> Some (fl_of (x / y))
           | NaN \<Rightarrow> Some NaN
           | PInf \<Rightarrow> Some (if 0 < y then PInf else NInf)
           | NInf \<Rightarrow> Some (if 0 < y then NInf else PInf))"
| "truediv a NaN = Some NaN"
| "truediv (Fin x) b = Some (Fin 0)"
| "truediv a b = Some NaN"

text \<open>Comparisons: every comparison with a NaN operand is false.\<close>

fun flt :: "pyfloat \<Rightarrow> pyfloat \<Rightarrow> bool" where
  "flt NaN _ = False"
| "flt _ NaN = False"
| "flt _ NInf = False"
| "flt PInf _ = False"
| "flt NInf _ = True"
| "flt (Fin x) PInf = True"
| "flt (Fin x) (Fin y) = (x < y)"

definition fgt :: "pyfloat \<Rightarrow> pyfloat \<Rightarrow> bool" where
  "fgt a b = flt b a"

definition fle :: "pyfloat \<Rightarrow> pyfloat \<Rightarrow> bool" where
  "fle a b = (a \<noteq> NaN \<and> b \<noteq> NaN \<and> (flt a b \<or> a = b))"

definition fne :: "pyfloat \<Rightarrow> pyfloat \<Rightarrow> bool" where
  "fne a b = (a = NaN \<or> b = NaN \<or> a \<noteq> b)"

section \<open>Safe arithmetic primitives (normalize.py)\<close>

text \<open>
  \<open>safe_div\<close>: the \<open>try\<close> block catches ZeroDivisionError and returns the default (\<open>dflt\<close>).
  The literal \<open>1e-12\<close> denotes the double \<open>4951760157141521 / 2 ^ 92\<close>, a little below
  \<open>10 ^ -12\<close>; the comparison is with that double.
\<close>

definition safe_div :: "pyfloat \<Rightarrow> pyfloat \<Rightarrow> pyfloat \<Rightarrow> pyfloat" where
  "safe_div numerator denominator dflt =
     (if isna numerator \<or> isna denominator then dflt
      else if flt (fabs denominator) (Fin (4951760157141521 / 2 ^ 92)) then dflt
      else case truediv numerator denominator of
             None \<Rightarrow> dflt
           | Some result \<Rightarrow> if isinf result then dflt else result)"

definition avg :: "pyfloat \<Rightarrow> pyfloat \<Rightarrow> pyfloat" where
  "avg x y =
     (if isna x \<or> isna y then NaN
      else if \<not> isfinite x \<or> \<not> isfinite y then NaN
      else case truediv (fadd x y) (Fin 2) of None \<Rightarrow> NaN | Some r \<Rightarrow> r)"

section \<open>Statement tables\<close>

text \<open>
  A statement table is a pandas DataFrame: the row index holds the line-item labels, the
  columns are the fiscal periods, every row has one cell per column.  Fiscal periods are
  pandas Timestamps, a linearly ordered type; a period is modelled by its ordinal.  Cells
  are floats, a missing cell is \<open>NaN\<close> (so \<open>pd.to_numeric(errors='coerce')\<close>, which
  leaves floats as they are, is the identity on a table).  Row labels of a normalized
  table are unique (\<open>normalize_field_names\<close> keeps the first row of each name) and
  column labels are distinct, so \<open>df.loc[name]\<close> is always a Series.
\<close>

type_synonym period = nat

record dataframe =
  columns :: "period list"
  index :: "(string \<times> pyfloat list) list"

text \<open>Values of the market-info dictionary: \<open>None\<close>, a number or a string.\<close>

text \<open>
  The market-info dictionary: the currency string (\<open>None\<close>: no such key) and the
  numeric entries, each a float or Python's \<open>None\<close> (\<open>Some None\<close>: the key is
  present and holds \<open>None\<close>).
\<close>

type_synonym pynum = "pyfloat option"

record market_info =
  info_currency :: "string option"
  info_num :: "string \<rightharpoonup> pynum"

record raw_data =
  income :: dataframe
  balance :: dataframe
  cashflow :: dataframe
  info :: market_info

section \<open>Field normalizer (normalize.py)\<close>

definition field_mappings :: "(string \<times> string) list" where
  "field_mappings =
    [
     (''Total Revenue'', ''TotalRevenue''),
     (''Revenue'', ''TotalRevenue''),
     (''Operating Revenue'', ''TotalRevenue''),
     (''Net Sales'', ''TotalRevenue''),
     (''Sales'', ''TotalRevenue''),
     (''Cost Of Revenue'', ''CostOfRevenue''),
     (''Cost of Goods Sold'', ''CostOfRevenue''),
     (''COGS'', ''CostOfRevenue''),
     (''Gross Profit'', ''GrossProfit''),
     (''Gross Income'', ''GrossProfit''),
     (''Operating Income'', ''OperatingIncome''),
     (''EBIT'', ''OperatingIncome''),
     (''Earnings Before Interest And Taxes'', ''OperatingIncome''),
     (''Net Income'', ''NetIncome''),
     (''Net Earnings'', ''NetIncome''),
     (''Net Income Common Stockholders'', ''NetIncome''),
     (''Pretax Income'', ''PretaxIncome''),
     (''Income Before Tax'', ''PretaxIncome''),
     (''Earnings Before Tax'', ''PretaxIncome''),
     (''Selling General Administrative'', ''SellingGeneralAdministrative''),
     (''Selling General And Administration'', ''SellingGeneralAdministrative''),
     (''SG&A'', ''SellingGeneralAdministrative''),
     (''Selling, General & Administrative'', ''SellingGeneralAdministrative''),
     (''Income Tax Expense'', ''IncomeTaxExpense''),
     (''Tax Provision'', ''IncomeTaxExpense''),
     (''Income Tax'', ''IncomeTaxExpense''),
     (''Interest Expense'', ''InterestExpense''),
     (''Interest Paid'', ''InterestExpense''),
     (''Total Assets'', ''TotalAssets''),
     (''Total Current Assets'', ''TotalCurrentAssets''),
     (''Current Assets'', ''TotalCurrentAssets''),
     (''Total Liabilities'', ''TotalLiabilities''),
     (''Total Liab'', ''TotalLiabilities''),
     (''Total Liabilities Net Minority Interest'', ''TotalLiabilities''),
     (''Total Liabilities And Stockholders Equity'', ''TotalLiabilities''),
     (''Total Current Liabilities'', ''TotalCurrentLiabilities''),
     (''Current Liabilities'', ''TotalCurrentLiabilities''),
     (''Total Stockholder Equity'', ''TotalStockholderEquity''),
     (''Total Equity'', ''TotalStockholderEquity''),
     (''Stockholders Equity'', ''TotalStockholderEquity''),
     (''Inventory'', ''Inventory''),
     (''Net PPE'', ''NetPPE''),
     (''Property Plant Equipment'', ''NetPPE''),
     (''Net Property Plant Equipment'', ''NetPPE''),
     (''Retained Earnings'', ''RetainedEarnings''),
     (''Net Receivables'', ''NetReceivables''),
     (''Accounts Receivable'', ''NetReceivables''),
     (''Total Cash From Operating Activities'', ''TotalCashFromOperatingActivities''),
     (''Operating Cash Flow'', ''TotalCashFromOperatingActivities''),
     (''Cash From Operations'', ''TotalCashFromOperatingActivities''),
     (''Depreciation'', ''Depreciation''),
     (''Depreciation And Amortization'', ''Depreciation''),
     (''Cash Dividends Paid'', ''CashDividendsPaid''),
     (''Dividends Paid'', ''CashDividendsPaid'')
    ]"

text \<open>
  The loop of \<open>normalize_field_names\<close>: \<open>seen\<close> is \<open>seen_normalized\<close>, the result is
  the list of kept rows under their new names.
\<close>

fun normalize_rows :: "string list \<Rightarrow> (string \<times> pyfloat list) list \<Rightarrow> (string \<times> pyfloat list) list" where
  "normalize_rows seen [] = []"
| "normalize_rows seen ((field_name, cells) # rest) =
     (let normalized_name = (case map_of field_mappings field_name of
                               Some n \<Rightarrow> n | None \<Rightarrow> field_name)
      in if normalized_name \<notin> set seen
         then (normalized_name, cells) # normalize_rows (normalized_name # seen) rest
         else normalize_rows seen rest)"

definition normalize_field_names :: "dataframe \<Rightarrow> dataframe" where
  "normalize_field_names df = df\<lparr>index := normalize_rows [] (index df)\<rparr>"

section \<open>Period selector (normalize.py)\<close>

text \<open>Decimal digits of a natural number: Python's \<open>str\<close> on a non-negative int.\<close>

fun str_nat :: "nat \<Rightarrow> string" where
  "str_nat n =
     (if n < 10 then [''0123456789'' ! n]
      else str_nat (n div 10) @ [''0123456789'' ! (n mod 10)])"

declare str_nat.simps [simp del]

record selected =
  s_income :: dataframe
  s_balance :: dataframe
  s_cashflow :: dataframe
  s_info :: market_info
  s_years :: "period list"
  s_currency :: string

text \<open>
  \<open>common_years\<close> is the intersection of the three column sets; \<open>remdups\<close> makes the
  list a set.  \<open>Inl\<close> is the message of the ValueError.
\<close>

definition common_years :: "raw_data \<Rightarrow> period list" where
  "common_years fd =
     filter (\<lambda>c. c \<in> set (columns (balance fd)) \<and> c \<in> set (columns (cashflow fd)))
            (remdups (columns (income fd)))"

definition select_two_years :: "raw_data \<Rightarrow> string + selected" where
  "select_two_years financial_data =
     (let cy = common_years financial_data in
      if length cy < 2
      then Inl (''Insufficient common years: '' @ str_nat (length cy) @ '' found'')
      else Inr \<lparr> s_income = normalize_field_names (income financial_data),
                 s_balance = normalize_field_names (balance financial_data),
                 s_cashflow = normalize_field_names (cashflow financial_data),
                 s_info = info financial_data,
                 s_years = take 2 (rev (sort cy)),
                 s_currency = (case info_currency (info financial_data) of
                                 Some c \<Rightarrow> c | None \<Rightarrow> ''USD'') \<rparr>)"

section \<open>Field lookup (normalize.py and, with the same text, validate.py)\<close>

text \<open>
  \<open>first_non_null\<close> is the loop \<open>for val in value: if not pd.isna(val): return float(val)\<close>;
  \<open>None\<close> means the loop ended without returning.
\<close>

fun first_non_null :: "pyfloat list \<Rightarrow> pyfloat option" where
  "first_non_null [] = None"
| "first_non_null (v # vs) = (if \<not> isna v then Some v else first_non_null vs)"

text \<open>\<open>value[year_idx]\<close> for a label of the Series' index.\<close>

definition series_at :: "period list \<Rightarrow> pyfloat list \<Rightarrow> period \<Rightarrow> pyfloat" where
  "series_at cols cells y = (case map_of (zip cols cells) y of Some v \<Rightarrow> v | None \<Rightarrow> NaN)"

fun safe_get_field :: "dataframe \<Rightarrow> string list \<Rightarrow> period option \<Rightarrow> pyfloat \<Rightarrow> pyfloat" where
  "safe_get_field df [] year_idx dflt = dflt"
| "safe_get_field df (field_name # field_names) year_idx dflt =
     (case map_of (index df) field_name of
        None \<Rightarrow> safe_get_field df field_names year_idx dflt
      | Some cells \<Rightarrow>
          (case year_idx of
             Some y \<Rightarrow>
               if y \<in> set (columns df)
               then (let val = series_at (columns df) cells y
                     in if \<not> isna val then val else dflt)
               else (case first_non_null cells of Some v \<Rightarrow> v | None \<Rightarrow> dflt)
           | None \<Rightarrow> (case first_non_null cells of Some v \<Rightarrow> v | None \<Rightarrow> dflt)))"

declare safe_get_field.simps [simp del]


section \<open>Accounting-equation validator (validate.py)\<close>

text \<open>
  The two shapes of a period's result dictionary.  \<open>check_error\<close> is the key
  \<open>"error"\<close>.  The \<open>except\<close> branch stores the message of the exception; the only
  exception the arithmetic can raise is ZeroDivisionError.
\<close>

datatype period_check =
    Checked (ok: bool) (delta: pyfloat) (assets: pyfloat) (liabilities: pyfloat)
            (equity: pyfloat) (calculated_total: pyfloat)
  | Failed (ok: bool) (delta: pyfloat) (check_error: string)

definition check_period :: "dataframe \<Rightarrow> pyfloat \<Rightarrow> period \<Rightarrow> period_check" where
  "check_period balance_df tol col =
     (let ta = safe_get_field balance_df [''TotalAssets''] (Some col) NaN;
          tl = safe_get_field balance_df [''TotalLiabilities''] (Some col) NaN;
          te = safe_get_field balance_df [''TotalStockholderEquity''] (Some col) NaN
      in if fgt ta (Fin 0)
         then (case truediv (fabs (fsub ta (fadd tl te))) ta of
                 None \<Rightarrow> Failed False PInf ''float division by zero''
               | Some diff \<Rightarrow> Checked (fle diff tol) diff ta tl te (fadd tl te))
         else Failed False PInf ''Total Assets is zero or missing'')"

text \<open>The result dictionary, in column order; the key \<open>str(col)\<close> is kept as the period.\<close>

definition check_accounting_equation :: "dataframe \<Rightarrow> pyfloat \<Rightarrow> (period \<times> period_check) list" where
  "check_accounting_equation balance_df tol =
     map (\<lambda>col. (col, check_period balance_df tol col)) (columns balance_df)"

text \<open>
  The default of the parameter \<open>tol\<close>: the literal \<open>0.01\<close> denotes the double
  \<open>5764607523034235 / 2 ^ 59\<close>.
\<close>

definition default_tol :: pyfloat where
  "default_tol = Fin (5764607523034235 / 2 ^ 59)"

definition collect_missing :: "(string \<times> dataframe) list \<Rightarrow> (string \<times> string list) list \<Rightarrow> string list" where
  "collect_missing df_map needed =
     concat (map (\<lambda>(section, fields).
                    case map_of df_map section of
                      None \<Rightarrow> map (\<lambda>field. section @ '':'' @ field) fields
                    | Some df \<Rightarrow>
                        map (\<lambda>field. section @ '':'' @ field)
                            (filter (\<lambda>field. field \<notin> fst ` set (index df)) fields))
                 needed)"

section \<open>Rounding and null leaves\<close>

text \<open>
  Python's \<open>round(x, 4)\<close> on a float: NaN and the infinities round to themselves, a
  finite value to the nearest multiple of \<open>10 ^ -4\<close>, ties to even.
\<close>

definition round_half_even :: "real \<Rightarrow> int" where
  "round_half_even x =
     (let f = \<lfloor>x\<rfloor>; d = x - of_int f
      in if d < 1 / 2 then f else if 1 / 2 < d then f + 1 else if even f then f else f + 1)"

fun round4 :: "pyfloat \<Rightarrow> pyfloat" where
  "round4 (Fin r) = Fin (of_int (round_half_even (r * 10 ^ 4)) / 10 ^ 4)"
| "round4 x = x"

text \<open>\<open>round(x, 4) if not pd.isna(x) else None\<close>; \<open>None\<close> is the null leaf.\<close>

definition leaf4 :: "pyfloat \<Rightarrow> pyfloat option" where
  "leaf4 x = (if \<not> isna x then Some (round4 x) else None)"

text \<open>\<open>sep.join(xs)\<close>.\<close>

fun join :: "string \<Rightarrow> string list \<Rightarrow> string" where
  "join sep [] = []"
| "join sep [x] = x"
| "join sep (x # y # ys) = x @ sep @ join sep (y # ys)"


section \<open>Metric engine (compute.py)\<close>

text \<open>
  The local variables of \<open>compute_all\<close> are functions of the environment they are
  computed from: the three normalized tables, the market info and the two periods
  \<open>y_t = years[0]\<close>, \<open>y_t1 = years[1]\<close>.  Lookups whose result is never used
  (\<open>OperatingIncome_t1\<close>, \<open>IncomeTaxExpense_t\<close>, \<open>InterestExpense_t\<close>,
  \<open>TotalCashFromOperatingActivities_t1\<close>, \<open>COGS_t\<close>, \<open>COGS_t1\<close>) are left out:
  they cannot raise.
\<close>

record env =
  e_income :: dataframe
  e_balance :: dataframe
  e_cashflow :: dataframe
  e_info :: market_info
  y_t :: period
  y_t1 :: period

definition TotalRevenue_t :: "env \<Rightarrow> pyfloat" where
  "TotalRevenue_t e = safe_get_field (e_income e) [''TotalRevenue''] (Some (y_t e)) NaN"

definition TotalRevenue_t1 :: "env \<Rightarrow> pyfloat" where
  "TotalRevenue_t1 e = safe_get_field (e_income e) [''TotalRevenue''] (Some (y_t1 e)) NaN"

definition GrossProfit_t :: "env \<Rightarrow> pyfloat" where
  "GrossProfit_t e = safe_get_field (e_income e) [''GrossProfit''] (Some (y_t e)) NaN"

definition GrossProfit_t1 :: "env \<Rightarrow> pyfloat" where
  "GrossProfit_t1 e = safe_get_field (e_income e) [''GrossProfit''] (Some (y_t1 e)) NaN"

definition OperatingIncome_t :: "env \<Rightarrow> pyfloat" where
  "OperatingIncome_t e = safe_get_field (e_income e) [''OperatingIncome''] (Some (y_t e)) NaN"

definition NetIncome_t :: "env \<Rightarrow> pyfloat" where
  "NetIncome_t e = safe_get_field (e_income e) [''NetIncome''] (Some (y_t e)) NaN"

definition NetIncome_t1 :: "env \<Rightarrow> pyfloat" where
  "NetIncome_t1 e = safe_get_field (e_income e) [''NetIncome''] (Some (y_t1 e)) NaN"

definition PretaxIncome_t :: "env \<Rightarrow> pyfloat" where
  "PretaxIncome_t e = safe_get_field (e_income e) [''PretaxIncome''] (Some (y_t e)) NaN"

definition SellingGeneralAdministrative_t :: "env \<Rightarrow> pyfloat" where
  "SellingGeneralAdministrative_t e = safe_get_field (e_income e) [''SellingGeneralAdministrative''] (Some (y_t e)) NaN"

definition SellingGeneralAdministrative_t1 :: "env \<Rightarrow> pyfloat" where
  "SellingGeneralAdministrative_t1 e = safe_get_field (e_income e) [''SellingGeneralAdministrative''] (Some (y_t1 e)) NaN"

definition TotalAssets_t :: "env \<Rightarrow> pyfloat" where
  "TotalAssets_t e = safe_get_field (e_balance e) [''TotalAssets''] (Some (y_t e)) NaN"

definition TotalAssets_t1 :: "env \<Rightarrow> pyfloat" where
  "TotalAssets_t1 e = safe_get_field (e_balance e) [''TotalAssets''] (Some (y_t1 e)) NaN"

definition TotalLiabilities_t :: "env \<Rightarrow> pyfloat" where
  "TotalLiabilities_t e = safe_get_field (e_balance e) [''TotalLiabilities''] (Some (y_t e)) NaN"

definition TotalLiabilities_t1 :: "env \<Rightarrow> pyfloat" where
  "TotalLiabilities_t1 e = safe_get_field (e_balance e) [''TotalLiabilities''] (Some (y_t1 e)) NaN"

definition TotalStockholderEquity_t :: "env \<Rightarrow> pyfloat" where
  "TotalStockholderEquity_t e = safe_get_field (e_balance e) [''TotalStockholderEquity''] (Some (y_t e)) NaN"

definition TotalStockholderEquity_t1 :: "env \<Rightarrow> pyfloat" where
  "TotalStockholderEquity_t1 e = safe_get_field (e_balance e) [''TotalStockholderEquity''] (Some (y_t1 e)) NaN"

definition TotalCurrentAssets_t :: "env \<Rightarrow> pyfloat" where
  "TotalCurrentAssets_t e = safe_get_field (e_balance e) [''TotalCurrentAssets''] (Some (y_t e)) NaN"

definition TotalCurrentAssets_t1 :: "env \<Rightarrow> pyfloat" where
  "TotalCurrentAssets_t1 e = safe_get_field (e_balance e) [''TotalCurrentAssets''] (Some (y_t1 e)) NaN"

definition TotalCurrentLiabilities_t :: "env \<Rightarrow> pyfloat" where
  "TotalCurrentLiabilities_t e = safe_get_field (e_balance e) [''TotalCurrentLiabilities''] (Some (y_t e)) NaN"

definition TotalCurrentLiabilities_t1 :: "env \<Rightarrow> pyfloat" where
  "TotalCurrentLiabilities_t1 e = safe_get_field (e_balance e) [''TotalCurrentLiabilities''] (Some (y_t1 e)) NaN"

definition Inventory_t :: "env \<Rightarrow> pyfloat" where
  "Inventory_t e = safe_get_field (e_balance e) [''Inventory''] (Some (y_t e)) NaN"

definition NetPPE_t :: "env \<Rightarrow> pyfloat" where
  "NetPPE_t e = safe_get_field (e_balance e) [''NetPPE''] (Some (y_t e)) NaN"

definition NetPPE_t1 :: "env \<Rightarrow> pyfloat" where
  "NetPPE_t1 e = safe_get_field (e_balance e) [''NetPPE''] (Some (y_t1 e)) NaN"

definition RetainedEarnings_t :: "env \<Rightarrow> pyfloat" where
  "RetainedEarnings_t e = safe_get_field (e_balance e) [''RetainedEarnings''] (Some (y_t e)) NaN"

definition NetReceivables_t :: "env \<Rightarrow> pyfloat" where
  "NetReceivables_t e = safe_get_field (e_balance e) [''NetReceivables''] (Some (y_t e)) NaN"

definition NetReceivables_t1 :: "env \<Rightarrow> pyfloat" where
  "NetReceivables_t1 e = safe_get_field (e_balance e) [''NetReceivables''] (Some (y_t1 e)) NaN"

definition TotalCashFromOperatingActivities_t :: "env \<Rightarrow> pyfloat" where
  "TotalCashFromOperatingActivities_t e = safe_get_field (e_cashflow e) [''TotalCashFromOperatingActivities''] (Some (y_t e)) NaN"

definition Depreciation_t :: "env \<Rightarrow> pyfloat" where
  "Depreciation_t e = safe_get_field (e_cashflow e) [''Depreciation''] (Some (y_t e)) NaN"

definition Depreciation_t1 :: "env \<Rightarrow> pyfloat" where
  "Depreciation_t1 e = safe_get_field (e_cashflow e) [''Depreciation''] (Some (y_t1 e)) NaN"

definition CashDividendsPaid_t :: "env \<Rightarrow> pyfloat" where
  "CashDividendsPaid_t e = safe_get_field (e_cashflow e) [''CashDividendsPaid''] (Some (y_t e)) NaN"


text \<open>
  Market data.  \<open>info.get(k, d)\<close> gives \<open>d\<close> for a missing key.  \<open>pd.isna(None)\<close>
  is true, and every use of a market value but one is behind \<open>pd.isna\<close> or is an
  operand of \<open>safe_div\<close>, whose first test is \<open>pd.isna\<close>: there \<open>None\<close> behaves as
  NaN (\<open>as_float\<close>).  The exception is the comparison of signal F7.
\<close>

definition info_get :: "market_info \<Rightarrow> string \<Rightarrow> pynum \<Rightarrow> pynum" where
  "info_get i k d = (case info_num i k of Some v \<Rightarrow> v | None \<Rightarrow> d)"

definition as_float :: "pynum \<Rightarrow> pyfloat" where
  "as_float v = (case v of None \<Rightarrow> NaN | Some x \<Rightarrow> x)"

text \<open>Truth value of a number or \<open>None\<close>: only \<open>None\<close> and zero are false.\<close>

definition truthy :: "pynum \<Rightarrow> bool" where
  "truthy v = (case v of None \<Rightarrow> False | Some x \<Rightarrow> x \<noteq> Fin 0)"

definition shares :: "env \<Rightarrow> pynum" where
  "shares e = info_get (e_info e) ''sharesOutstanding'' (Some NaN)"

definition price :: "env \<Rightarrow> pynum" where
  "price e =
     (let cp = info_get (e_info e) ''currentPrice'' None
      in if truthy cp then cp else info_get (e_info e) ''regularMarketPrice'' (Some NaN))"

definition dividend_rate :: "env \<Rightarrow> pynum" where
  "dividend_rate e = info_get (e_info e) ''dividendRate'' (Some NaN)"

definition book_value :: "env \<Rightarrow> pynum" where
  "book_value e = info_get (e_info e) ''bookValue'' (Some NaN)"

text \<open>\<open>not pd.isna(shares) and shares > 0\<close>.\<close>

definition shares_usable :: "env \<Rightarrow> bool" where
  "shares_usable e = (\<not> isna (as_float (shares e)) \<and> fgt (as_float (shares e)) (Fin 0))"

definition avg_assets :: "env \<Rightarrow> pyfloat" where
  "avg_assets e =
     avg (TotalAssets_t e) (TotalAssets_t1 e)"

definition avg_equity :: "env \<Rightarrow> pyfloat" where
  "avg_equity e =
     avg (TotalStockholderEquity_t e) (TotalStockholderEquity_t1 e)"

definition current_ratio :: "env \<Rightarrow> pyfloat" where
  "current_ratio e =
     safe_div (TotalCurrentAssets_t e) (TotalCurrentLiabilities_t e) NaN"

definition quick_ratio :: "env \<Rightarrow> pyfloat" where
  "quick_ratio e =
     safe_div (fsub (TotalCurrentAssets_t e) (Inventory_t e)) (TotalCurrentLiabilities_t e) NaN"

definition debt_to_equity :: "env \<Rightarrow> pyfloat" where
  "debt_to_equity e =
     safe_div (TotalLiabilities_t e) (TotalStockholderEquity_t e) NaN"

definition roe :: "env \<Rightarrow> pyfloat" where
  "roe e =
     safe_div (NetIncome_t e) (avg_equity e) NaN"

definition roa :: "env \<Rightarrow> pyfloat" where
  "roa e =
     safe_div (NetIncome_t e) (avg_assets e) NaN"

definition npm :: "env \<Rightarrow> pyfloat" where
  "npm e =
     safe_div (NetIncome_t e) (TotalRevenue_t e) NaN"

definition asset_turnover :: "env \<Rightarrow> pyfloat" where
  "asset_turnover e =
     safe_div (TotalRevenue_t e) (avg_assets e) NaN"

definition equity_multiplier :: "env \<Rightarrow> pyfloat" where
  "equity_multiplier e =
     safe_div (TotalAssets_t e) (TotalStockholderEquity_t e) NaN"

definition roe_dupont_3 :: "env \<Rightarrow> pyfloat" where
  "roe_dupont_3 e =
     fmul (fmul (npm e) (asset_turnover e)) (equity_multiplier e)"

definition tax_burden :: "env \<Rightarrow> pyfloat" where
  "tax_burden e =
     (if \<not> isna (PretaxIncome_t e) \<and> fne (PretaxIncome_t e) (Fin 0)
      then safe_div (NetIncome_t e) (PretaxIncome_t e) NaN else NaN)"

definition interest_burden :: "env \<Rightarrow> pyfloat" where
  "interest_burden e =
     (if \<not> isna (OperatingIncome_t e) \<and> fne (OperatingIncome_t e) (Fin 0)
      then safe_div (PretaxIncome_t e) (OperatingIncome_t e) NaN else NaN)"

definition operating_margin :: "env \<Rightarrow> pyfloat" where
  "operating_margin e =
     safe_div (OperatingIncome_t e) (TotalRevenue_t e) NaN"

definition roe_dupont_5 :: "env \<Rightarrow> pyfloat" where
  "roe_dupont_5 e =
     fmul (fmul (fmul (fmul (tax_burden e) (interest_burden e)) (operating_margin e))
                 (asset_turnover e)) (equity_multiplier e)"

definition roe_adjusted :: "env \<Rightarrow> pyfloat" where
  "roe_adjusted e =
     roe_dupont_3 e"

definition eps_t :: "env \<Rightarrow> pyfloat" where
  "eps_t e =
     (if shares_usable e then safe_div (NetIncome_t e) (as_float (shares e)) NaN else NaN)"

definition eps_t1 :: "env \<Rightarrow> pyfloat" where
  "eps_t1 e =
     (if shares_usable e then safe_div (NetIncome_t1 e) (as_float (shares e)) NaN else NaN)"

definition bps_t :: "env \<Rightarrow> pyfloat" where
  "bps_t e =
     (if shares_usable e then safe_div (TotalStockholderEquity_t e) (as_float (shares e)) NaN
      else as_float (book_value e))"

definition sps_t :: "env \<Rightarrow> pyfloat" where
  "sps_t e =
     (if shares_usable e then safe_div (TotalRevenue_t e) (as_float (shares e)) NaN else NaN)"

definition growth_eps :: "env \<Rightarrow> pyfloat" where
  "growth_eps e =
     (if \<not> isna (eps_t1 e) \<and> fgt (eps_t1 e) (Fin 0)
      then safe_div (fsub (eps_t e) (eps_t1 e)) (eps_t1 e) NaN else NaN)"

definition pe :: "env \<Rightarrow> pyfloat" where
  "pe e =
     safe_div (as_float (price e)) (eps_t e) NaN"

definition pb :: "env \<Rightarrow> pyfloat" where
  "pb e =
     safe_div (as_float (price e)) (bps_t e) NaN"

definition ps :: "env \<Rightarrow> pyfloat" where
  "ps e =
     safe_div (as_float (price e)) (sps_t e) NaN"

definition peg :: "env \<Rightarrow> pyfloat" where
  "peg e =
     (if \<not> isna (pe e) \<and> \<not> isna (growth_eps e) \<and> fgt (growth_eps e) (Fin 0)
      then safe_div (pe e) (fmul (Fin 100) (growth_eps e)) NaN else NaN)"

definition div_ps :: "env \<Rightarrow> pyfloat" where
  "div_ps e =
     (if \<not> isna (as_float (dividend_rate e)) then as_float (dividend_rate e)
      else if \<not> isna (CashDividendsPaid_t e) \<and> shares_usable e
           then safe_div (fneg (CashDividendsPaid_t e)) (as_float (shares e)) NaN else NaN)"

definition dividend_yield :: "env \<Rightarrow> pyfloat" where
  "dividend_yield e =
     safe_div (div_ps e) (as_float (price e)) NaN"

definition dividend_payout_ratio :: "env \<Rightarrow> pyfloat" where
  "dividend_payout_ratio e =
     (if \<not> isna (eps_t e) \<and> fgt (eps_t e) (Fin 0)
      then safe_div (div_ps e) (eps_t e) NaN else NaN)"

definition dividend_coverage_ratio :: "env \<Rightarrow> pyfloat" where
  "dividend_coverage_ratio e =
     (if \<not> isna (div_ps e) \<and> fgt (div_ps e) (Fin 0)
      then safe_div (eps_t e) (div_ps e) NaN else NaN)"


subsection \<open>Piotroski F-Score\<close>

definition ROA_t :: "env \<Rightarrow> pyfloat" where
  "ROA_t e =
     safe_div (NetIncome_t e) (TotalAssets_t e) NaN"

definition ROA_t1 :: "env \<Rightarrow> pyfloat" where
  "ROA_t1 e =
     safe_div (NetIncome_t1 e) (TotalAssets_t1 e) NaN"

definition CFO_t :: "env \<Rightarrow> pyfloat" where
  "CFO_t e =
     TotalCashFromOperatingActivities_t e"

definition F1 :: "env \<Rightarrow> nat" where
  "F1 e =
     (if fgt (ROA_t e) (Fin 0) then 1 else 0)"

definition F2 :: "env \<Rightarrow> nat" where
  "F2 e =
     (if fgt (CFO_t e) (Fin 0) then 1 else 0)"

definition F3 :: "env \<Rightarrow> nat" where
  "F3 e =
     (if fgt (ROA_t e) (ROA_t1 e) then 1 else 0)"

definition F4 :: "env \<Rightarrow> nat" where
  "F4 e =
     (if fgt (CFO_t e) (NetIncome_t e) then 1 else 0)"

definition F5 :: "env \<Rightarrow> nat" where
  "F5 e =
     (if flt (safe_div (TotalLiabilities_t e) (TotalAssets_t e) NaN)
             (safe_div (TotalLiabilities_t1 e) (TotalAssets_t1 e) NaN) then 1 else 0)"

definition F6 :: "env \<Rightarrow> nat" where
  "F6 e =
     (if fgt (safe_div (TotalCurrentAssets_t e) (TotalCurrentLiabilities_t e) NaN)
             (safe_div (TotalCurrentAssets_t1 e) (TotalCurrentLiabilities_t1 e) NaN) then 1 else 0)"

text \<open>
  \<open>1 if shares <= shares else 0\<close>: on \<open>None\<close> the comparison raises TypeError, whose
  message is \<open>Inl\<close>.
\<close>

definition quote :: string where
  "quote = [CHR 0x27]"

definition none_le_message :: string where
  "none_le_message =
     quote @ ''<='' @ quote @ '' not supported between instances of '' @
     quote @ ''NoneType'' @ quote @ '' and '' @ quote @ ''NoneType'' @ quote"

definition F7 :: "env \<Rightarrow> string + nat" where
  "F7 e =
     (case shares e of
        None \<Rightarrow> Inl none_le_message
      | Some s \<Rightarrow> Inr (if fle s s then 1 else 0))"

definition F8 :: "env \<Rightarrow> nat" where
  "F8 e =
     (if fgt (safe_div (GrossProfit_t e) (TotalRevenue_t e) NaN)
             (safe_div (GrossProfit_t1 e) (TotalRevenue_t1 e) NaN) then 1 else 0)"

definition F9 :: "env \<Rightarrow> nat" where
  "F9 e =
     (if fgt (safe_div (TotalRevenue_t e) (TotalAssets_t e) NaN)
             (safe_div (TotalRevenue_t1 e) (TotalAssets_t1 e) NaN) then 1 else 0)"

definition piotroski_signals :: "env \<Rightarrow> string + (string \<times> nat) list" where
  "piotroski_signals e =
     (case F7 e of
        Inl msg \<Rightarrow> Inl msg
      | Inr f7 \<Rightarrow>
          Inr [(''F1'', F1 e), (''F2'', F2 e), (''F3'', F3 e), (''F4'', F4 e), (''F5'', F5 e),
               (''F6'', F6 e), (''F7'', f7), (''F8'', F8 e), (''F9'', F9 e)])"

text \<open>\<open>sum(piotroski_signals.values())\<close> and \<open>f"{piotroski_score:.2f}/9"\<close>.\<close>

definition piotroski_score :: "(string \<times> nat) list \<Rightarrow> nat" where
  "piotroski_score sigs = sum_list (map snd sigs)"

definition piotroski_fscore_display :: "nat \<Rightarrow> string" where
  "piotroski_fscore_display sc = str_nat sc @ ''.00'' @ ''/9''"

subsection \<open>Beneish M-Score\<close>

text \<open>
  The float literals of the two composite formulas.  A literal denotes the double nearest
  to the decimal written; \<open>k_0_92\<close> is the value of the literal \<open>0.92\<close>, and so on.
\<close>

definition k_4_84 :: real where
  "k_4_84 = 1362338887279575 / 2 ^ 48"

definition k_0_92 :: real where
  "k_0_92 = 8286623314361713 / 2 ^ 53"

definition k_0_528 :: real where
  "k_0_528 = 1188950301625811 / 2 ^ 51"

definition k_0_404 :: real where
  "k_0_404 = 3638908498915361 / 2 ^ 53"

definition k_0_892 :: real where
  "k_0_892 = 8034421735228965 / 2 ^ 53"

definition k_0_115 :: real where
  "k_0_115 = 8286623314361713 / 2 ^ 56"

definition k_0_172 :: real where
  "k_0_172 = 3098476543630901 / 2 ^ 54"

definition k_4_679 :: real where
  "k_4_679 = 2634042832058319 / 2 ^ 49"

definition k_0_327 :: real where
  "k_0_327 = 5890708312600609 / 2 ^ 54"

definition k_1_2 :: real where
  "k_1_2 = 5404319552844595 / 2 ^ 52"

definition k_1_4 :: real where
  "k_1_4 = 3152519739159347 / 2 ^ 51"

definition k_3_3 :: real where
  "k_3_3 = 3715469692580659 / 2 ^ 50"

definition k_0_6 :: real where
  "k_0_6 = 5404319552844595 / 2 ^ 53"


definition DSRI :: "env \<Rightarrow> pyfloat" where
  "DSRI e =
     safe_div (safe_div (NetReceivables_t e) (TotalRevenue_t e) NaN)
              (safe_div (NetReceivables_t1 e) (TotalRevenue_t1 e) NaN) NaN"

definition GMI :: "env \<Rightarrow> pyfloat" where
  "GMI e =
     safe_div (safe_div (GrossProfit_t1 e) (TotalRevenue_t1 e) NaN)
              (safe_div (GrossProfit_t e) (TotalRevenue_t e) NaN) NaN"

definition AQI :: "env \<Rightarrow> pyfloat" where
  "AQI e =
     safe_div (fsub (Fin 1) (safe_div (fadd (TotalCurrentAssets_t e) (NetPPE_t e)) (TotalAssets_t e) NaN))
              (fsub (Fin 1) (safe_div (fadd (TotalCurrentAssets_t1 e) (NetPPE_t1 e)) (TotalAssets_t1 e) NaN))
              NaN"

definition SGI :: "env \<Rightarrow> pyfloat" where
  "SGI e =
     safe_div (TotalRevenue_t e) (TotalRevenue_t1 e) NaN"

definition DEPI :: "env \<Rightarrow> pyfloat" where
  "DEPI e =
     safe_div (safe_div (Depreciation_t1 e) (fadd (Depreciation_t1 e) (NetPPE_t1 e)) NaN)
              (safe_div (Depreciation_t e) (fadd (Depreciation_t e) (NetPPE_t e)) NaN) NaN"

definition SGAI :: "env \<Rightarrow> pyfloat" where
  "SGAI e =
     safe_div (safe_div (SellingGeneralAdministrative_t e) (TotalRevenue_t e) NaN)
              (safe_div (SellingGeneralAdministrative_t1 e) (TotalRevenue_t1 e) NaN) NaN"

definition LVGI :: "env \<Rightarrow> pyfloat" where
  "LVGI e =
     safe_div (safe_div (TotalLiabilities_t e) (TotalAssets_t e) NaN)
              (safe_div (TotalLiabilities_t1 e) (TotalAssets_t1 e) NaN) NaN"

definition TATA :: "env \<Rightarrow> pyfloat" where
  "TATA e =
     safe_div (fsub (OperatingIncome_t e) (TotalCashFromOperatingActivities_t e)) (TotalAssets_t e) NaN"

definition beneish_components :: "env \<Rightarrow> (string \<times> pyfloat) list" where
  "beneish_components e =
     [(''DSRI'', DSRI e), (''GMI'', GMI e), (''AQI'', AQI e), (''SGI'', SGI e),
      (''DEPI'', DEPI e), (''SGAI'', SGAI e), (''LVGI'', LVGI e), (''TATA'', TATA e)]"

text \<open>\<open>[k for k, v in components.items() if pd.isna(v)]\<close>.\<close>

definition missing_components :: "(string \<times> pyfloat) list \<Rightarrow> string list" where
  "missing_components comps = map fst (filter (\<lambda>(k, v). isna v) comps)"

text \<open>The composite, in Python's order of evaluation (left to right).\<close>

definition beneish_formula :: "env \<Rightarrow> pyfloat" where
  "beneish_formula e =
     fsub (fadd (fsub (fadd (fadd (fadd (fadd (fadd (Fin (- k_4_84))
       (fmul (Fin k_0_92) (DSRI e)))
       (fmul (Fin k_0_528) (GMI e)))
       (fmul (Fin k_0_404) (AQI e)))
       (fmul (Fin k_0_892) (SGI e)))
       (fmul (Fin k_0_115) (DEPI e)))
       (fmul (Fin k_0_172) (SGAI e)))
       (fmul (Fin k_4_679) (TATA e)))
       (fmul (Fin k_0_327) (LVGI e))"

definition beneish_m_score :: "env \<Rightarrow> pyfloat option" where
  "beneish_m_score e =
     (if missing_components (beneish_components e) \<noteq> [] then None
      else Some (beneish_formula e))"

definition beneish_reason :: "env \<Rightarrow> string option" where
  "beneish_reason e =
     (if missing_components (beneish_components e) \<noteq> []
      then Some (''insufficient_fields: '' @ join '', '' (missing_components (beneish_components e)))
      else None)"

subsection \<open>Altman Z-Score\<close>

definition working_capital :: "env \<Rightarrow> pyfloat" where
  "working_capital e =
     fsub (TotalCurrentAssets_t e) (TotalCurrentLiabilities_t e)"

definition retained_earnings :: "env \<Rightarrow> pyfloat" where
  "retained_earnings e =
     safe_get_field (e_balance e) [''RetainedEarnings''] (Some (y_t e)) NaN"

definition ebit :: "env \<Rightarrow> pyfloat" where
  "ebit e =
     OperatingIncome_t e"

definition altman_a :: "env \<Rightarrow> pyfloat" where
  "altman_a e =
     safe_div (working_capital e) (TotalAssets_t e) NaN"

definition altman_b :: "env \<Rightarrow> pyfloat" where
  "altman_b e =
     safe_div (retained_earnings e) (TotalAssets_t e) NaN"

definition altman_c :: "env \<Rightarrow> pyfloat" where
  "altman_c e =
     safe_div (ebit e) (TotalAssets_t e) NaN"

definition altman_d :: "env \<Rightarrow> pyfloat" where
  "altman_d e =
     safe_div (TotalStockholderEquity_t e) (TotalLiabilities_t e) NaN"

definition altman_e :: "env \<Rightarrow> pyfloat" where
  "altman_e e =
     safe_div (TotalRevenue_t e) (TotalAssets_t e) NaN"

definition altman_components :: "env \<Rightarrow> pyfloat list" where
  "altman_components e = [altman_a e, altman_b e, altman_c e, altman_d e, altman_e e]"

definition altman_formula :: "env \<Rightarrow> pyfloat" where
  "altman_formula e =
     fadd (fadd (fadd (fadd (fmul (Fin k_1_2) (altman_a e))
       (fmul (Fin k_1_4) (altman_b e)))
       (fmul (Fin k_3_3) (altman_c e)))
       (fmul (Fin k_0_6) (altman_d e)))
       (fmul (Fin 1) (altman_e e))"

definition altman_z_score :: "env \<Rightarrow> pyfloat option" where
  "altman_z_score e =
     (if list_ex isna (altman_components e) then None else Some (altman_formula e))"

definition altman_reason :: "env \<Rightarrow> string option" where
  "altman_reason e =
     (if list_ex isna (altman_components e)
      then Some ''insufficient_fields: missing working capital, retained earnings, EBIT, equity, or revenue data''
      else None)"

section \<open>Result assembler (compute.py)\<close>

text \<open>
  The output document.  A section is a dictionary from key to leaf, kept in insertion
  order; a leaf is a float or null (\<open>None\<close>).  \<open>str(y)\<close> of a period is kept as the
  period.
\<close>

type_synonym doc_section = "(string \<times> pyfloat option) list"

record piotroski_doc =
  score :: "nat option"
  fscore_display :: string
  signals :: "(string \<times> nat) list"

record beneish_doc =
  bd_m :: "pyfloat option"
  bd_reason :: "string option"
  bd_components :: doc_section

record altman_doc =
  ad_z :: "pyfloat option"
  ad_z_prime :: "pyfloat option"
  ad_reason :: "string option"
  ad_components :: doc_section

record document =
  ticker :: string
  error :: "string option"
  currency :: string
  years :: "period list"
  validation :: "(period \<times> period_check) list"
  ratios :: doc_section
  dupont :: "(string \<times> doc_section) list"
  piotroski :: piotroski_doc
  beneish :: beneish_doc
  altman :: altman_doc
  price_based :: doc_section
  dividends :: doc_section
  alpha :: "pyfloat option"
  doc_notes :: "string list"

definition needed_fields :: "(string \<times> string list) list" where
  "needed_fields =
     [(''income'', [''TotalRevenue'', ''GrossProfit'', ''OperatingIncome'', ''NetIncome'',
                    ''SellingGeneralAdministrative'', ''IncomeTaxExpense'', ''InterestExpense'']),
      (''balance'', [''TotalAssets'', ''TotalLiabilities'', ''TotalStockholderEquity'',
                     ''TotalCurrentAssets'', ''TotalCurrentLiabilities'', ''Inventory'', ''NetPPE'',
                     ''RetainedEarnings'', ''NetReceivables'']),
      (''cashflow'', [''TotalCashFromOperatingActivities'', ''Depreciation'', ''CashDividendsPaid''])]"

definition ratios_section :: "env \<Rightarrow> doc_section" where
  "ratios_section e =
     [(''current'', leaf4 (current_ratio e)),
      (''quick'', leaf4 (quick_ratio e)),
      (''debt_to_equity'', leaf4 (debt_to_equity e)),
      (''roe'', leaf4 (roe e)),
      (''roa'', leaf4 (roa e)),
      (''roe_adjusted'', leaf4 (roe_adjusted e))]"

definition dupont_section :: "env \<Rightarrow> (string \<times> doc_section) list" where
  "dupont_section e =
     [(''roe_3step'',
         [(''npm'', leaf4 (npm e)),
          (''asset_turnover'', leaf4 (asset_turnover e)),
          (''equity_multiplier'', leaf4 (equity_multiplier e)),
          (''roe'', leaf4 (roe_dupont_3 e))]),
      (''roe_5step'',
         [(''tax_burden'', leaf4 (tax_burden e)),
          (''interest_burden'', leaf4 (interest_burden e)),
          (''operating_margin'', leaf4 (operating_margin e)),
          (''asset_turnover'', leaf4 (asset_turnover e)),
          (''equity_multiplier'', leaf4 (equity_multiplier e)),
          (''roe'', leaf4 (roe_dupont_5 e))])]"

definition beneish_section :: "env \<Rightarrow> beneish_doc" where
  "beneish_section e =
     \<lparr> bd_m = map_option round4 (beneish_m_score e),
       bd_reason = beneish_reason e,
       bd_components = map (\<lambda>(k, v). (k, leaf4 v)) (beneish_components e) \<rparr>"

definition altman_section :: "env \<Rightarrow> altman_doc" where
  "altman_section e =
     \<lparr> ad_z = map_option round4 (altman_z_score e),
       ad_z_prime = None,
       ad_reason = altman_reason e,
       ad_components =
         [(''a'', leaf4 (altman_a e)), (''b'', leaf4 (altman_b e)), (''c'', leaf4 (altman_c e)),
          (''d'', leaf4 (altman_d e)), (''e'', leaf4 (altman_e e))] \<rparr>"

definition price_based_section :: "env \<Rightarrow> doc_section" where
  "price_based_section e =
     [(''pe'', leaf4 (pe e)), (''pb'', leaf4 (pb e)), (''ps'', leaf4 (ps e)), (''peg'', leaf4 (peg e))]"

definition dividends_section :: "env \<Rightarrow> doc_section" where
  "dividends_section e =
     [(''dividend_yield'', leaf4 (dividend_yield e)),
      (''dividend_payout_ratio'', leaf4 (dividend_payout_ratio e)),
      (''dividend_coverage_ratio'', leaf4 (dividend_coverage_ratio e))]"

text \<open>\<open>round(alpha, 4) if alpha is not None and not pd.isna(alpha) else None\<close>.\<close>

definition alpha_leaf :: "pyfloat option \<Rightarrow> pyfloat option" where
  "alpha_leaf a = (case a of None \<Rightarrow> None | Some x \<Rightarrow> leaf4 x)"

text \<open>The tables, market info and periods the metrics are computed from.\<close>

definition env_of :: "selected \<Rightarrow> period \<Rightarrow> period \<Rightarrow> env" where
  "env_of data y0 y1 =
     \<lparr> e_income = s_income data, e_balance = s_balance data,
       e_cashflow = s_cashflow data, e_info = s_info data,
       y_t = y0, y_t1 = y1 \<rparr>"

text \<open>
  The body of the \<open>try\<close> block after the fetch.  \<open>Inl\<close> is the message of the exception
  that leaves it: the ValueError of \<open>select_two_years\<close>, an IndexError on \<open>years\<close>, the
  TypeError of signal F7.  \<open>calculate_alpha\<close> reads price histories over the network
  and catches every exception; its return value is the parameter \<open>alpha_result\<close>.
\<close>

definition compute_body :: "string \<Rightarrow> raw_data \<Rightarrow> pyfloat option \<Rightarrow> string + document" where
  "compute_body tk raw alpha_result =
     (case select_two_years raw of
        Inl msg \<Rightarrow> Inl msg
      | Inr data \<Rightarrow>
          (case s_years data of
             y0 # y1 # _ \<Rightarrow>
               (let e = env_of data y0 y1
                in case piotroski_signals e of
                     Inl msg \<Rightarrow> Inl msg
                   | Inr sigs \<Rightarrow>
                       Inr \<lparr> ticker = tk,
                             error = None,
                             currency = s_currency data,
                             years = s_years data,
                             validation = check_accounting_equation (e_balance e) default_tol,
                             ratios = ratios_section e,
                             dupont = dupont_section e,
                             piotroski = \<lparr> score = Some (piotroski_score sigs),
                                           fscore_display = piotroski_fscore_display (piotroski_score sigs),
                                           signals = sigs \<rparr>,
                             beneish = beneish_section e,
                             altman = altman_section e,
                             price_based = price_based_section e,
                             dividends = dividends_section e,
                             alpha = alpha_leaf alpha_result,
                             doc_notes = map (\<lambda>field. ''Missing field: '' @ field)
                                       (collect_missing [(''income'', e_income e), (''balance'', e_balance e),
                                                         (''cashflow'', e_cashflow e)] needed_fields) \<rparr>)
           | _ \<Rightarrow> Inl ''list index out of range''))"

text \<open>The document of the \<open>except\<close> branch, for the exception message \<open>msg\<close>.\<close>

definition error_document :: "string \<Rightarrow> string \<Rightarrow> document" where
  "error_document tk msg =
     \<lparr> ticker = tk,
       error = Some msg,
       currency = ''Unknown'',
       years = [],
       validation = [],
       ratios = [],
       dupont = [],
       piotroski = \<lparr> score = None, fscore_display = ''N/A'', signals = [] \<rparr>,
       beneish = \<lparr> bd_m = None, bd_reason = Some (''computation_error: '' @ msg), bd_components = [] \<rparr>,
       altman = \<lparr> ad_z = None, ad_z_prime = None, ad_reason = Some (''computation_error: '' @ msg),
                  ad_components = [] \<rparr>,
       price_based = [],
       dividends = [],
       alpha = None,
       doc_notes = [''Error: '' @ msg] \<rparr>"

text \<open>
  \<open>compute_all\<close>: \<open>fetched\<close> is the outcome of \<open>get_financials(ticker)\<close>, the tables
  and market info of the provider or (\<open>Inl\<close>) the message of the exception it raised.
\<close>

definition compute_all :: "string \<Rightarrow> string + raw_data \<Rightarrow> pyfloat option \<Rightarrow> document" where
  "compute_all tk fetched alpha_result =
     (case fetched of
        Inl msg \<Rightarrow> error_document tk msg
      | Inr raw \<Rightarrow>
          (case compute_body tk raw alpha_result of
             Inl msg \<Rightarrow> error_document tk msg
           | Inr doc \<Rightarrow> doc))"


section \<open>Example inputs\<close>

text \<open>
  Statement tables under the provider's labels, for fiscal years 2023 and 2022; the
  balance sheet has a third column, 2021, where total assets are missing.
\<close>

definition ex_income :: dataframe where
  "ex_income =
     \<lparr> columns = [2023, 2022],
       index = [(''Total Revenue'', [Fin 1000, Fin 900]),
                (''Gross Profit'', [Fin 400, Fin 350]),
                (''Operating Income'', [Fin 200, Fin 150]),
                (''Net Income'', [Fin 150, Fin 100]),
                (''Pretax Income'', [Fin 180, Fin 130]),
                (''Selling General And Administration'', [Fin 100, Fin 95])] \<rparr>"

definition ex_balance :: dataframe where
  "ex_balance =
     \<lparr> columns = [2023, 2022, 2021],
       index = [(''Total Assets'', [Fin 1000, Fin 900, NaN]),
                (''Total Liabilities Net Minority Interest'', [Fin 400, Fin 380, Fin 350]),
                (''Stockholders Equity'', [Fin 600, Fin 520, Fin 500]),
                (''Current Assets'', [Fin 500, Fin 450, NaN]),
                (''Current Liabilities'', [Fin 250, Fin 240, NaN]),
                (''Inventory'', [Fin 100, Fin 90, NaN]),
                (''Net PPE'', [Fin 300, Fin 280, NaN]),
                (''Retained Earnings'', [Fin 200, Fin 150, NaN]),
                (''Accounts Receivable'', [Fin 120, Fin 100, NaN])] \<rparr>"

definition ex_cashflow :: dataframe where
  "ex_cashflow =
     \<lparr> columns = [2023, 2022],
       index = [(''Operating Cash Flow'', [Fin 220, Fin 160]),
                (''Depreciation And Amortization'', [Fin 50, Fin 45]),
                (''Cash Dividends Paid'', [Fin (- 30), Fin (- 25)])] \<rparr>"

definition ex_info :: market_info where
  "ex_info =
     \<lparr> info_currency = Some ''USD'',
       info_num = [''sharesOutstanding'' \<mapsto> Some (Fin 100), ''currentPrice'' \<mapsto> Some (Fin 30)] \<rparr>"

definition ex_raw :: raw_data where
  "ex_raw = \<lparr> income = ex_income, balance = ex_balance, cashflow = ex_cashflow, info = ex_info \<rparr>"

text \<open>The same company with a cash-flow statement for 2023 only.\<close>

definition ex_raw_one_period :: raw_data where
  "ex_raw_one_period =
     ex_raw \<lparr> cashflow := \<lparr> columns = [2023], index = [(''Operating Cash Flow'', [Fin 220])] \<rparr> \<rparr>"

text \<open>The same company when the market info has no \<open>sharesOutstanding\<close> entry.\<close>

definition ex_raw_no_shares :: raw_data where
  "ex_raw_no_shares =
     ex_raw \<lparr> info := \<lparr> info_currency = Some ''USD'',
                          info_num = [''currentPrice'' \<mapsto> Some (Fin 30)] \<rparr> \<rparr>"

text \<open>The same company when the balance sheet reports total liabilities of zero.\<close>

definition ex_raw_no_liabilities :: raw_data where
  "ex_raw_no_liabilities =
     ex_raw \<lparr> balance :=
       \<lparr> columns = [2023, 2022],
         index = [(''Total Assets'', [Fin 1000, Fin 900]),
                  (''Total Liabilities Net Minority Interest'', [Fin 0, Fin 0]),
                  (''Stockholders Equity'', [Fin 1000, Fin 900]),
                  (''Current Assets'', [Fin 500, Fin 450]),
                  (''Current Liabilities'', [Fin 250, Fin 240]),
                  (''Retained Earnings'', [Fin 200, Fin 150])] \<rparr> \<rparr>"

text \<open>
  The environments of the runs on \<open>ex_raw\<close> and on \<open>ex_raw_no_liabilities\<close>: the tables
  under their canonical names, the periods 2023 and 2022.
\<close>

definition ex_income_canonical :: dataframe where
  "ex_income_canonical =
     \<lparr> columns = [2023, 2022],
       index = [(''TotalRevenue'', [Fin 1000, Fin 900]),
                (''GrossProfit'', [Fin 400, Fin 350]),
                (''OperatingIncome'', [Fin 200, Fin 150]),
                (''NetIncome'', [Fin 150, Fin 100]),
                (''PretaxIncome'', [Fin 180, Fin 130]),
                (''SellingGeneralAdministrative'', [Fin 100, Fin 95])] \<rparr>"

definition ex_balance_canonical :: dataframe where
  "ex_balance_canonical =
     \<lparr> columns = [2023, 2022, 2021],
       index = [(''TotalAssets'', [Fin 1000, Fin 900, NaN]),
                (''TotalLiabilities'', [Fin 400, Fin 380, Fin 350]),
                (''TotalStockholderEquity'', [Fin 600, Fin 520, Fin 500]),
                (''TotalCurrentAssets'', [Fin 500, Fin 450, NaN]),
                (''TotalCurrentLiabilities'', [Fin 250, Fin 240, NaN]),
                (''Inventory'', [Fin 100, Fin 90, NaN]),
                (''NetPPE'', [Fin 300, Fin 280, NaN]),
                (''RetainedEarnings'', [Fin 200, Fin 150, NaN]),
                (''NetReceivables'', [Fin 120, Fin 100, NaN])] \<rparr>"

definition ex_cashflow_canonical :: dataframe where
  "ex_cashflow_canonical =
     \<lparr> columns = [2023, 2022],
       index = [(''TotalCashFromOperatingActivities'', [Fin 220, Fin 160]),
                (''Depreciation'', [Fin 50, Fin 45]),
                (''CashDividendsPaid'', [Fin (- 30), Fin (- 25)])] \<rparr>"

definition ex_env :: env where
  "ex_env =
     \<lparr> e_income = ex_income_canonical, e_balance = ex_balance_canonical,
       e_cashflow = ex_cashflow_canonical, e_info = ex_info, y_t = 2023, y_t1 = 2022 \<rparr>"

definition ex_env_no_liabilities :: env where
  "ex_env_no_liabilities =
     ex_env \<lparr> e_balance :=
       \<lparr> columns = [2023, 2022],
         index = [(''TotalAssets'', [Fin 1000, Fin 900]),
                  (''TotalLiabilities'', [Fin 0, Fin 0]),
                  (''TotalStockholderEquity'', [Fin 1000, Fin 900]),
                  (''TotalCurrentAssets'', [Fin 500, Fin 450]),
                  (''TotalCurrentLiabilities'', [Fin 250, Fin 240]),
                  (''RetainedEarnings'', [Fin 200, Fin 150])] \<rparr> \<rparr>"


text \<open>
  Statements with amounts so large that the product of the three DuPont factors
  overflows: net income \<open>2^1000\<close>, revenue \<open>2^400\<close>, total assets 1, equity \<open>2^-30\<close>.
\<close>

definition ex_raw_large :: raw_data where
  "ex_raw_large =
     \<lparr> income = \<lparr> columns = [2023, 2022],
                   index = [(''Net Income'', [Fin (2 ^ 1000), Fin 1]),
                            (''Total Revenue'', [Fin (2 ^ 400), Fin 1])] \<rparr>,
       balance = \<lparr> columns = [2023, 2022],
                    index = [(''Total Assets'', [Fin 1, Fin 1]),
                             (''Stockholders Equity'', [Fin (1 / 2 ^ 30), Fin 1])] \<rparr>,
       cashflow = ex_cashflow,
       info = ex_info \<rparr>"

definition ex_env_large :: env where
  "ex_env_large =
     \<lparr> e_income = \<lparr> columns = [2023, 2022],
                     index = [(''NetIncome'', [Fin (2 ^ 1000), Fin 1]),
                              (''TotalRevenue'', [Fin (2 ^ 400), Fin 1])] \<rparr>,
       e_balance = \<lparr> columns = [2023, 2022],
                      index = [(''TotalAssets'', [Fin 1, Fin 1]),
                               (''TotalStockholderEquity'', [Fin (1 / 2 ^ 30), Fin 1])] \<rparr>,
       e_cashflow = ex_cashflow_canonical,
       e_info = ex_info, y_t = 2023, y_t1 = 2022 \<rparr>"

text \<open>
  The environment of a run on the tables \<open>raw\<close>: \<open>None\<close> when the period selector
  raises.  It names, in the statements below, the values the body computes with.
\<close>

definition run_env :: "raw_data \<Rightarrow> env option" where
  "run_env raw =
     (case select_two_years raw of
        Inl msg \<Rightarrow> None
      | Inr data \<Rightarrow> (case s_years data of y0 # y1 # _ \<Rightarrow> Some (env_of data y0 y1) | _ \<Rightarrow> None))"

text \<open>A leaf is finite when it is null or holds a finite float.\<close>

definition finite_leaf :: "pyfloat option \<Rightarrow> bool" where
  "finite_leaf v = (case v of None \<Rightarrow> True | Some x \<Rightarrow> isfinite x)"

text \<open>A float that is NaN or finite, as every result of \<open>safe_div\<close> is.\<close>

definition nan_or_fin :: "pyfloat \<Rightarrow> bool" where
  "nan_or_fin x = (isna x \<or> isfinite x)"

section \<open>Properties of the float model and of \<open>safe_div\<close>\<close>

lemma fl_max_pos: "0 < fl_max"
  by (simp add: fl_max_def)

lemma fl_of_Fin: "\<bar>r\<bar> \<le> fl_max \<Longrightarrow> fl_of r = Fin r"
  by (auto simp: fl_of_def)

lemma fl_of_inf: "fl_max < \<bar>r\<bar> \<Longrightarrow> isinf (fl_of r)"
  using fl_max_pos by (auto simp: fl_of_def isinf_def)

lemma fl_of_not_nan: "fl_of r \<noteq> NaN"
  by (simp add: fl_of_def)

lemma safe_div_Fin_Fin:
  "safe_div (Fin x) (Fin y) NaN =
     (if \<bar>y\<bar> < 4951760157141521 / 2 ^ 92 \<or> fl_max < \<bar>x / y\<bar> then NaN else Fin (x / y))"
proof (cases "\<bar>y\<bar> < 4951760157141521 / 2 ^ 92")
  case True
  then show ?thesis by (simp add: safe_div_def isna_def)
next
  case False
  then have y: "y \<noteq> 0" by auto
  show ?thesis
  proof (cases "fl_max < \<bar>x / y\<bar>")
    case True
    from fl_of_inf [OF this] False y show ?thesis
      using True by (simp add: safe_div_def isna_def)
  next
    case nov: False
    then have "fl_of (x / y) = Fin (x / y)" by (simp add: fl_of_Fin)
    with False y nov show ?thesis
      by (simp add: safe_div_def isna_def isinf_def)
  qed
qed

lemma safe_div_inf_num: "isinf a \<Longrightarrow> safe_div a b NaN = NaN"
  by (cases a; cases b) (auto simp: safe_div_def isna_def isinf_def)

lemma safe_div_inf_den: "isinf b \<Longrightarrow> safe_div (Fin x) b NaN = Fin 0"
  by (cases b) (auto simp: safe_div_def isna_def isinf_def)

lemma safe_div_na: "isna a \<or> isna b \<Longrightarrow> safe_div a b NaN = NaN"
  by (auto simp: safe_div_def)

text \<open>The result of \<open>safe_div\<close> with the NaN default is NaN or finite, never infinite.\<close>

lemma safe_div_nan_or_fin: "safe_div a b NaN = NaN \<or> (\<exists>r. safe_div a b NaN = Fin r)"
  by (cases a; cases b)
     (auto simp: safe_div_def isna_def isinf_def fl_of_def split: option.splits if_splits)

text \<open>
  Claim C1, as the code has it.  \<open>safe_div a b\<close> (default NaN) is NaN when an operand is
  NaN, when \<open>|b| < 1e-12\<close>, when the numerator is infinite, and when the quotient of
  two finite operands overflows; it is the quotient \<open>a / b\<close> when both operands are
  finite, \<open>|b| \<ge> 1e-12\<close> and the quotient is finite.  The threshold is the double that
  the literal \<open>1e-12\<close> denotes, so at \<open>b = 1e-12\<close> itself the division is made.  For a finite numerator and an
  infinite denominator it is 0, not NaN: only the result is tested for infinity, the
  operands are tested for NaN alone.
\<close>

theorem safe_div_cases:
  "(isna a \<or> isna b \<longrightarrow> safe_div a b NaN = NaN) \<and>
   (b = Fin y \<and> \<bar>y\<bar> < 4951760157141521 / 2 ^ 92 \<longrightarrow> safe_div a b NaN = NaN) \<and>
   (isinf a \<longrightarrow> safe_div a b NaN = NaN) \<and>
   (a = Fin x \<and> b = Fin y \<and> 4951760157141521 / 2 ^ 92 \<le> \<bar>y\<bar> \<and> \<bar>x / y\<bar> \<le> fl_max
      \<longrightarrow> safe_div a b NaN = Fin (x / y)) \<and>
   (a = Fin x \<and> b = Fin y \<and> 4951760157141521 / 2 ^ 92 \<le> \<bar>y\<bar> \<and> fl_max < \<bar>x / y\<bar>
      \<longrightarrow> safe_div a b NaN = NaN) \<and>
   (a = Fin x \<and> isinf b \<longrightarrow> safe_div a b NaN = Fin 0)"
proof (intro conjI impI)
  assume "isna a \<or> isna b" then show "safe_div a b NaN = NaN" by (rule safe_div_na)
next
  assume "b = Fin y \<and> \<bar>y\<bar> < 4951760157141521 / 2 ^ 92"
  then show "safe_div a b NaN = NaN"
    by (cases a) (auto simp: safe_div_def isna_def)
next
  assume "isinf a" then show "safe_div a b NaN = NaN" by (rule safe_div_inf_num)
next
  assume "a = Fin x \<and> b = Fin y \<and> 4951760157141521 / 2 ^ 92 \<le> \<bar>y\<bar> \<and> \<bar>x / y\<bar> \<le> fl_max"
  then show "safe_div a b NaN = Fin (x / y)" by (simp add: safe_div_Fin_Fin)
next
  assume "a = Fin x \<and> b = Fin y \<and> 4951760157141521 / 2 ^ 92 \<le> \<bar>y\<bar> \<and> fl_max < \<bar>x / y\<bar>"
  then show "safe_div a b NaN = NaN" by (simp add: safe_div_Fin_Fin)
next
  assume "a = Fin x \<and> isinf b"
  then show "safe_div a b NaN = Fin 0" by (simp add: safe_div_inf_den)
qed

text \<open>
  The cases of \<open>safe_div_cases\<close> at concrete operands: \<open>10 / 2\<close>, a zero and a NaN
  denominator, an infinite numerator, the overflowing quotient \<open>2^1000 / 2^-30\<close>, an
  infinite denominator, and the denominator \<open>1e-12\<close>, where the division is made.
\<close>

theorem safe_div_cases_witness:
  "safe_div (Fin 10) (Fin 2) NaN = Fin 5 \<and>
   safe_div (Fin 10) (Fin 0) NaN = NaN \<and>
   safe_div (Fin 10) NaN NaN = NaN \<and>
   safe_div PInf (Fin 2) NaN = NaN \<and>
   safe_div (Fin (2 ^ 1000)) (Fin (1 / 2 ^ 30)) NaN = NaN \<and>
   safe_div (Fin 3) NInf NaN = Fin 0 \<and>
   safe_div (Fin 1) (Fin (4951760157141521 / 2 ^ 92)) NaN = Fin (2 ^ 92 / 4951760157141521)"
  using safe_div_cases [of "Fin 10" "Fin 2" 2 10]
        safe_div_cases [of "Fin 1" "Fin (4951760157141521 / 2 ^ 92)" "4951760157141521 / 2 ^ 92" 1]
        safe_div_cases [of "Fin 10" "Fin 0" 0 10]
        safe_div_cases [of "Fin 10" NaN 0 10]
        safe_div_cases [of PInf "Fin 2" 2 0]
        safe_div_cases [of "Fin (2 ^ 1000)" "Fin (1 / 2 ^ 30)" "1 / 2 ^ 30" "2 ^ 1000"]
        safe_div_cases [of "Fin 3" NInf 0 3]
  by (simp add: fl_max_def isna_def isinf_def)

text \<open>
  Claim C1 as stated fails for a non-finite denominator: \<open>safe_div(1.0, inf)\<close> is
  \<open>0.0\<close>, not the unknown marker.
\<close>

theorem safe_div_infinite_denominator_counterexample:
  "isinf PInf \<and> safe_div (Fin 1) PInf NaN = Fin 0 \<and> safe_div (Fin 1) PInf NaN \<noteq> NaN"
  by (simp add: safe_div_def isna_def isinf_def)


section \<open>Field lookup, validator and period selector\<close>






lemma fgt_zero_iff: "fgt a (Fin 0) \<longleftrightarrow> \<not> (isna a \<or> fle a (Fin 0))"
  by (cases a) (auto simp: fgt_def fle_def isna_def)



lemma check_period_failed:
  "isna (safe_get_field balance_df [''TotalAssets''] (Some col) NaN) \<or>
   fle (safe_get_field balance_df [''TotalAssets''] (Some col) NaN) (Fin 0) \<Longrightarrow>
   check_period balance_df tol col = Failed False PInf ''Total Assets is zero or missing''"
  using fgt_zero_iff [of "safe_get_field balance_df [''TotalAssets''] (Some col) NaN"]
  by (simp add: check_period_def)




lemma common_years_card:
  "length (common_years raw) =
     card (set (columns (income raw)) \<inter> set (columns (balance raw)) \<inter> set (columns (cashflow raw)))"
proof -
  have "distinct (common_years raw)" by (simp add: common_years_def)
  then have "length (common_years raw) = card (set (common_years raw))"
    by (simp add: distinct_card)
  also have "set (common_years raw) =
      set (columns (income raw)) \<inter> set (columns (balance raw)) \<inter> set (columns (cashflow raw))"
    by (auto simp: common_years_def)
  finally show ?thesis .
qed

lemma str_nat_digit: "n < 10 \<Longrightarrow> str_nat n = [''0123456789'' ! n]"
  by (simp add: str_nat.simps)

text \<open>
  Claim C2.  When fewer than two periods are common to the columns of the three tables,
  \<open>compute_all\<close> returns the document of the \<open>except\<close> branch: the ticker, the error
  string \<open>Insufficient common years: n found\<close>, an empty ratios section and one note,
  \<open>Error: \<close> followed by the error string.
\<close>

theorem compute_all_insufficient_history:
  "card (set (columns (income raw)) \<inter> set (columns (balance raw)) \<inter>
         set (columns (cashflow raw))) = n \<Longrightarrow> n < 2 \<Longrightarrow>
   msg = ''Insufficient common years: '' @ [''0123456789'' ! n] @ '' found'' \<Longrightarrow>
   compute_all tk (Inr raw) alpha_result = error_document tk msg \<and>
   ticker (compute_all tk (Inr raw) alpha_result) = tk \<and>
   error (compute_all tk (Inr raw) alpha_result) = Some msg \<and>
   ratios (compute_all tk (Inr raw) alpha_result) = [] \<and>
   doc_notes (compute_all tk (Inr raw) alpha_result) = [''Error: '' @ msg]"
proof -
  assume c: "card (set (columns (income raw)) \<inter> set (columns (balance raw)) \<inter>
         set (columns (cashflow raw))) = n" and n: "n < 2"
    and msg: "msg = ''Insufficient common years: '' @ [''0123456789'' ! n] @ '' found''"
  have len: "length (common_years raw) = n" using c by (simp add: common_years_card)
  have "str_nat n = [''0123456789'' ! n]" using n by (simp add: str_nat_digit)
  with len n have "select_two_years raw = Inl msg"
    by (simp add: select_two_years_def msg)
  then have 1: "compute_all tk (Inr raw) alpha_result = error_document tk msg"
    by (simp add: compute_all_def compute_body_def)
  show ?thesis
    by (simp add: 1 error_document_def)
qed





lemma success_path:
  assumes "error (compute_all tk fetched a) = None"
  obtains raw e sigs where "fetched = Inr raw" "run_env raw = Some e"
    "piotroski_signals e = Inr sigs"
    "piotroski (compute_all tk fetched a) =
       \<lparr> score = Some (piotroski_score sigs),
         fscore_display = piotroski_fscore_display (piotroski_score sigs),
         signals = sigs \<rparr>"
    "validation (compute_all tk fetched a) = check_accounting_equation (e_balance e) default_tol"
    "ratios (compute_all tk fetched a) = ratios_section e"
    "dupont (compute_all tk fetched a) = dupont_section e"
    "beneish (compute_all tk fetched a) = beneish_section e"
    "altman (compute_all tk fetched a) = altman_section e"
    "price_based (compute_all tk fetched a) = price_based_section e"
    "dividends (compute_all tk fetched a) = dividends_section e"
    "alpha (compute_all tk fetched a) = alpha_leaf a"
  using assms
  by (auto simp: compute_all_def compute_body_def run_env_def error_document_def Let_def
           split: sum.splits list.splits)

lemma run_env_info: "run_env raw = Some e \<Longrightarrow> e_info e = info raw"
  by (auto simp: run_env_def select_two_years_def env_of_def Let_def split: sum.splits list.splits if_splits)

lemma F_le_1: "F1 e \<le> 1" "F2 e \<le> 1" "F3 e \<le> 1" "F4 e \<le> 1" "F5 e \<le> 1" "F6 e \<le> 1"
  "F8 e \<le> 1" "F9 e \<le> 1"
  by (simp_all add: F1_def F2_def F3_def F4_def F5_def F6_def F8_def F9_def)

lemma F7_le_1: "F7 e = Inr f7 \<Longrightarrow> f7 \<le> 1"
  by (auto simp: F7_def split: option.splits)

lemma fle_refl_iff: "fle s s \<longleftrightarrow> \<not> isna s"
  by (cases s) (auto simp: fle_def isna_def)

lemma F7_value: "F7 e = Inr f7 \<longleftrightarrow> (\<exists>s. shares e = Some s \<and> f7 = (if isna s then 0 else 1))"
  by (auto simp: F7_def fle_refl_iff split: option.splits)

lemma signals_shape:
  "piotroski_signals e = Inr sigs \<Longrightarrow>
   \<exists>f7. F7 e = Inr f7 \<and>
     sigs = [(''F1'', F1 e), (''F2'', F2 e), (''F3'', F3 e), (''F4'', F4 e), (''F5'', F5 e),
             (''F6'', F6 e), (''F7'', f7), (''F8'', F8 e), (''F9'', F9 e)]"
  by (auto simp: piotroski_signals_def split: sum.splits)

lemma piotroski_score_list:
  "piotroski_score [(k1, f1), (k2, f2), (k3, f3), (k4, f4), (k5, f5), (k6, f6), (k7, f7),
                    (k8, f8), (k9, f9)] = f1 + f2 + f3 + f4 + f5 + f6 + f7 + f8 + f9"
  by (simp add: piotroski_score_def)

text \<open>
  Claim C7.  On the success path the signals are nine values F1 to F9, each 0 or 1, the
  score is their sum, hence at most 9, and the display string is the score with two
  decimals followed by \<open>/9\<close>.
\<close>

theorem piotroski_score_sum:
  "error (compute_all tk fetched a) = None \<Longrightarrow>
   \<exists>f1 f2 f3 f4 f5 f6 f7 f8 f9.
     signals (piotroski (compute_all tk fetched a)) =
       [(''F1'', f1), (''F2'', f2), (''F3'', f3), (''F4'', f4), (''F5'', f5),
        (''F6'', f6), (''F7'', f7), (''F8'', f8), (''F9'', f9)] \<and>
     (\<forall>f \<in> {f1, f2, f3, f4, f5, f6, f7, f8, f9}. f = 0 \<or> f = 1) \<and>
     score (piotroski (compute_all tk fetched a)) = Some (f1 + f2 + f3 + f4 + f5 + f6 + f7 + f8 + f9) \<and>
     f1 + f2 + f3 + f4 + f5 + f6 + f7 + f8 + f9 \<le> 9 \<and>
     fscore_display (piotroski (compute_all tk fetched a)) =
       [''0123456789'' ! (f1 + f2 + f3 + f4 + f5 + f6 + f7 + f8 + f9)] @ ''.00/9''"
proof -
  assume "error (compute_all tk fetched a) = None"
  then obtain raw e sigs where e: "piotroski_signals e = Inr sigs"
    and p: "piotroski (compute_all tk fetched a) =
       \<lparr> score = Some (piotroski_score sigs),
         fscore_display = piotroski_fscore_display (piotroski_score sigs),
         signals = sigs \<rparr>"
    by (rule success_path)
  from signals_shape [OF e] obtain f7 where f7: "F7 e = Inr f7"
    and sigs: "sigs = [(''F1'', F1 e), (''F2'', F2 e), (''F3'', F3 e), (''F4'', F4 e), (''F5'', F5 e),
             (''F6'', F6 e), (''F7'', f7), (''F8'', F8 e), (''F9'', F9 e)]"
    by blast
  let ?sc = "F1 e + F2 e + F3 e + F4 e + F5 e + F6 e + f7 + F8 e + F9 e"
  have b: "F1 e \<le> 1" "F2 e \<le> 1" "F3 e \<le> 1" "F4 e \<le> 1" "F5 e \<le> 1" "F6 e \<le> 1"
    "f7 \<le> 1" "F8 e \<le> 1" "F9 e \<le> 1"
    using F_le_1 [of e] F7_le_1 [OF f7] by simp_all
  then have le9: "?sc \<le> 9" by linarith
  have sc: "piotroski_score sigs = ?sc"
    by (simp add: sigs piotroski_score_def)
  have disp: "piotroski_fscore_display ?sc = [''0123456789'' ! ?sc] @ ''.00/9''"
    using le9 by (simp add: piotroski_fscore_display_def str_nat_digit)
  have bin: "\<forall>f \<in> {F1 e, F2 e, F3 e, F4 e, F5 e, F6 e, f7, F8 e, F9 e}. f = 0 \<or> f = 1"
    using b by auto
  show ?thesis
    apply (rule exI [of _ "F1 e"], rule exI [of _ "F2 e"], rule exI [of _ "F3 e"],
           rule exI [of _ "F4 e"], rule exI [of _ "F5 e"], rule exI [of _ "F6 e"],
           rule exI [of _ f7], rule exI [of _ "F8 e"], rule exI [of _ "F9 e"])
    using bin le9 disp by (simp add: p sigs piotroski_score_list)
qed

lemma f7_signal_of_shares:
  "error (compute_all tk (Inr raw) a) = None \<Longrightarrow>
   \<exists>s. info_get (info raw) ''sharesOutstanding'' (Some NaN) = Some s \<and>
       map_of (signals (piotroski (compute_all tk (Inr raw) a))) ''F7'' = Some (if isna s then 0 else 1)"
proof -
  assume "error (compute_all tk (Inr raw) a) = None"
  then obtain raw' e sigs where r: "Inr raw = (Inr raw' :: string + raw_data)"
    and env: "run_env raw' = Some e" and e: "piotroski_signals e = Inr sigs"
    and p: "piotroski (compute_all tk (Inr raw) a) =
       \<lparr> score = Some (piotroski_score sigs),
         fscore_display = piotroski_fscore_display (piotroski_score sigs),
         signals = sigs \<rparr>"
    by (rule success_path)
  from r env have env': "run_env raw = Some e" by simp
  from signals_shape [OF e] obtain f7 where f7: "F7 e = Inr f7"
    and sigs: "sigs = [(''F1'', F1 e), (''F2'', F2 e), (''F3'', F3 e), (''F4'', F4 e), (''F5'', F5 e),
             (''F6'', F6 e), (''F7'', f7), (''F8'', F8 e), (''F9'', F9 e)]"
    by blast
  from f7 obtain s where s: "shares e = Some s" "f7 = (if isna s then 0 else 1)"
    by (auto simp: F7_value)
  have "map_of sigs ''F7'' = Some f7" by (simp add: sigs)
  with s run_env_info [OF env'] show ?thesis
    by (auto simp: p shares_def)
qed

text \<open>
  Claim C6, as the code has it.  On the success path \<open>sharesOutstanding\<close> is a float
  (the default NaN when the key is missing), and signal F7 is 1 when that float is a
  number and 0 when it is NaN: \<open>shares <= shares\<close> is false for NaN.
\<close>

theorem piotroski_f7_shares:
  "error (compute_all tk (Inr raw) a) = None \<Longrightarrow>
   \<exists>s. info_get (info raw) ''sharesOutstanding'' (Some NaN) = Some s \<and>
       map_of (signals (piotroski (compute_all tk (Inr raw) a))) ''F7'' = Some (if isna s then 0 else 1)"
  by (rule f7_signal_of_shares)

lemma fgt_nan: "isna x \<or> isna y \<Longrightarrow> \<not> fgt x y" "isna x \<or> isna y \<Longrightarrow> \<not> flt x y"
  by (cases x; cases y; auto simp: fgt_def isna_def)+

text \<open>
  Claim C10.  On the success path the signals and the score are numbers, never unknown,
  and each signal with a NaN operand in its comparison is 0; F7 is 0 when shares
  outstanding is unknown.
\<close>

theorem piotroski_unknown_is_zero:
  "error (compute_all tk (Inr raw) a) = None \<Longrightarrow>
   \<exists>e f7. run_env raw = Some e \<and> F7 e = Inr f7 \<and>
     signals (piotroski (compute_all tk (Inr raw) a)) =
       [(''F1'', F1 e), (''F2'', F2 e), (''F3'', F3 e), (''F4'', F4 e), (''F5'', F5 e),
        (''F6'', F6 e), (''F7'', f7), (''F8'', F8 e), (''F9'', F9 e)] \<and>
     score (piotroski (compute_all tk (Inr raw) a)) =
       Some (F1 e + F2 e + F3 e + F4 e + F5 e + F6 e + f7 + F8 e + F9 e) \<and>
     (isna (ROA_t e) \<longrightarrow> F1 e = 0) \<and>
     (isna (CFO_t e) \<longrightarrow> F2 e = 0) \<and>
     (isna (ROA_t e) \<or> isna (ROA_t1 e) \<longrightarrow> F3 e = 0) \<and>
     (isna (CFO_t e) \<or> isna (NetIncome_t e) \<longrightarrow> F4 e = 0) \<and>
     (isna (safe_div (TotalLiabilities_t e) (TotalAssets_t e) NaN) \<or>
      isna (safe_div (TotalLiabilities_t1 e) (TotalAssets_t1 e) NaN) \<longrightarrow> F5 e = 0) \<and>
     (isna (safe_div (TotalCurrentAssets_t e) (TotalCurrentLiabilities_t e) NaN) \<or>
      isna (safe_div (TotalCurrentAssets_t1 e) (TotalCurrentLiabilities_t1 e) NaN) \<longrightarrow> F6 e = 0) \<and>
     (isna (as_float (shares e)) \<longrightarrow> f7 = 0) \<and>
     (isna (safe_div (GrossProfit_t e) (TotalRevenue_t e) NaN) \<or>
      isna (safe_div (GrossProfit_t1 e) (TotalRevenue_t1 e) NaN) \<longrightarrow> F8 e = 0) \<and>
     (isna (safe_div (TotalRevenue_t e) (TotalAssets_t e) NaN) \<or>
      isna (safe_div (TotalRevenue_t1 e) (TotalAssets_t1 e) NaN) \<longrightarrow> F9 e = 0)"
proof -
  assume "error (compute_all tk (Inr raw) a) = None"
  then obtain raw' e sigs where r: "Inr raw = (Inr raw' :: string + raw_data)"
    and env: "run_env raw' = Some e" and e: "piotroski_signals e = Inr sigs"
    and p: "piotroski (compute_all tk (Inr raw) a) =
       \<lparr> score = Some (piotroski_score sigs),
         fscore_display = piotroski_fscore_display (piotroski_score sigs),
         signals = sigs \<rparr>"
    by (rule success_path)
  from r env have env': "run_env raw = Some e" by simp
  from signals_shape [OF e] obtain f7 where f7: "F7 e = Inr f7"
    and sigs: "sigs = [(''F1'', F1 e), (''F2'', F2 e), (''F3'', F3 e), (''F4'', F4 e), (''F5'', F5 e),
             (''F6'', F6 e), (''F7'', f7), (''F8'', F8 e), (''F9'', F9 e)]"
    by blast
  have sc: "piotroski_score sigs = F1 e + F2 e + F3 e + F4 e + F5 e + F6 e + f7 + F8 e + F9 e"
    by (simp add: sigs piotroski_score_def)
  have s7: "isna (as_float (shares e)) \<longrightarrow> f7 = 0"
    using f7 by (auto simp: F7_value as_float_def)
  have rest: "(isna (ROA_t e) \<longrightarrow> F1 e = 0) \<and>
     (isna (CFO_t e) \<longrightarrow> F2 e = 0) \<and>
     (isna (ROA_t e) \<or> isna (ROA_t1 e) \<longrightarrow> F3 e = 0) \<and>
     (isna (CFO_t e) \<or> isna (NetIncome_t e) \<longrightarrow> F4 e = 0) \<and>
     (isna (safe_div (TotalLiabilities_t e) (TotalAssets_t e) NaN) \<or>
      isna (safe_div (TotalLiabilities_t1 e) (TotalAssets_t1 e) NaN) \<longrightarrow> F5 e = 0) \<and>
     (isna (safe_div (TotalCurrentAssets_t e) (TotalCurrentLiabilities_t e) NaN) \<or>
      isna (safe_div (TotalCurrentAssets_t1 e) (TotalCurrentLiabilities_t1 e) NaN) \<longrightarrow> F6 e = 0) \<and>
     (isna (safe_div (GrossProfit_t e) (TotalRevenue_t e) NaN) \<or>
      isna (safe_div (GrossProfit_t1 e) (TotalRevenue_t1 e) NaN) \<longrightarrow> F8 e = 0) \<and>
     (isna (safe_div (TotalRevenue_t e) (TotalAssets_t e) NaN) \<or>
      isna (safe_div (TotalRevenue_t1 e) (TotalAssets_t1 e) NaN) \<longrightarrow> F9 e = 0)"
    by (simp add: F1_def F2_def F3_def F4_def F5_def F6_def F8_def F9_def fgt_nan)
  show ?thesis
    apply (rule exI [of _ e], rule exI [of _ f7])
    using env' f7 s7 rest by (simp add: p sigs piotroski_score_list)
qed


section \<open>The composite scores\<close>



lemma fl_max_big: "100 * 10 ^ 300 \<le> fl_max"
  by (simp add: fl_max_def)

lemma fadd_Fin: "- fl_max \<le> x + y \<Longrightarrow> x + y \<le> fl_max \<Longrightarrow> fadd (Fin x) (Fin y) = Fin (x + y)"
  by (simp add: fl_of_def)


lemma scale_bound:
  fixes x :: real
  assumes "\<bar>x\<bar> \<le> B" "\<bar>c\<bar> \<le> 5"
  shows "\<bar>c * x\<bar> \<le> 5 * B"
proof -
  have "\<bar>c * x\<bar> = \<bar>c\<bar> * \<bar>x\<bar>" by (simp add: abs_mult)
  also have "\<dots> \<le> 5 * B" using assms by (intro mult_mono) auto
  finally show ?thesis .
qed

lemma fmul_const:
  fixes B :: real
  assumes "100 * B \<le> fl_max" "\<bar>x\<bar> \<le> B" "\<bar>c\<bar> \<le> 5"
  shows "fmul (Fin c) (Fin x) = Fin (c * x)" and "\<bar>c * x\<bar> \<le> 5 * B"
proof -
  show b: "\<bar>c * x\<bar> \<le> 5 * B" using assms(2,3) by (rule scale_bound)
  have "0 \<le> B" using assms(2) by linarith
  with b assms(1) have "\<bar>c * x\<bar> \<le> fl_max" by linarith
  then show "fmul (Fin c) (Fin x) = Fin (c * x)" by (simp add: fl_of_Fin)
qed

lemma k_bounds:
  "\<bar>k_0_92\<bar> \<le> 5" "\<bar>k_0_528\<bar> \<le> 5" "\<bar>k_0_404\<bar> \<le> 5" "\<bar>k_0_892\<bar> \<le> 5" "\<bar>k_0_115\<bar> \<le> 5"
  "\<bar>k_0_172\<bar> \<le> 5" "\<bar>k_4_679\<bar> \<le> 5" "\<bar>k_0_327\<bar> \<le> 5" "\<bar>k_1_2\<bar> \<le> 5" "\<bar>k_1_4\<bar> \<le> 5"
  "\<bar>k_3_3\<bar> \<le> 5" "\<bar>k_0_6\<bar> \<le> 5" "0 \<le> k_4_84" "k_4_84 \<le> 5"
  by (simp_all add: k_0_92_def k_0_528_def k_0_404_def k_0_892_def k_0_115_def k_0_172_def
        k_4_679_def k_0_327_def k_1_2_def k_1_4_def k_3_3_def k_0_6_def k_4_84_def)





lemma success_env:
  assumes "error (compute_all tk (Inr raw) a) = None"
  obtains e where "run_env raw = Some e"
    "validation (compute_all tk (Inr raw) a) = check_accounting_equation (e_balance e) default_tol"
    "ratios (compute_all tk (Inr raw) a) = ratios_section e"
    "dupont (compute_all tk (Inr raw) a) = dupont_section e"
    "beneish (compute_all tk (Inr raw) a) = beneish_section e"
    "altman (compute_all tk (Inr raw) a) = altman_section e"
    "price_based (compute_all tk (Inr raw) a) = price_based_section e"
    "dividends (compute_all tk (Inr raw) a) = dividends_section e"
    "alpha (compute_all tk (Inr raw) a) = alpha_leaf a"
proof -
  from assms obtain raw' e sigs where "Inr raw = (Inr raw' :: string + raw_data)"
    "run_env raw' = Some e"
    "validation (compute_all tk (Inr raw) a) = check_accounting_equation (e_balance e) default_tol"
    "ratios (compute_all tk (Inr raw) a) = ratios_section e"
    "dupont (compute_all tk (Inr raw) a) = dupont_section e"
    "beneish (compute_all tk (Inr raw) a) = beneish_section e"
    "altman (compute_all tk (Inr raw) a) = altman_section e"
    "price_based (compute_all tk (Inr raw) a) = price_based_section e"
    "dividends (compute_all tk (Inr raw) a) = dividends_section e"
    "alpha (compute_all tk (Inr raw) a) = alpha_leaf a"
    by (rule success_path)
  then show ?thesis using that by simp
qed








lemma altman_terms_bounded:
  fixes B :: real
  assumes B: "1 \<le> B" "100 * B \<le> fl_max"
    and p: "\<bar>t1\<bar> \<le> 5 * B" "\<bar>t2\<bar> \<le> 5 * B" "\<bar>t3\<bar> \<le> 5 * B" "\<bar>t4\<bar> \<le> 5 * B" "\<bar>t5\<bar> \<le> 5 * B"
  shows "fadd (fadd (fadd (fadd (Fin t1) (Fin t2)) (Fin t3)) (Fin t4)) (Fin t5) =
     Fin (t1 + t2 + t3 + t4 + t5)"
proof -
  note q = p [unfolded abs_le_iff]
  have s1: "fadd (Fin t1) (Fin t2) = Fin (t1 + t2)"
    using q B by (intro fadd_Fin) linarith+
  have s2: "fadd (Fin (t1 + t2)) (Fin t3) = Fin (t1 + t2 + t3)"
    using q B by (intro fadd_Fin) linarith+
  have s3: "fadd (Fin (t1 + t2 + t3)) (Fin t4) = Fin (t1 + t2 + t3 + t4)"
    using q B by (intro fadd_Fin) linarith+
  have s4: "fadd (Fin (t1 + t2 + t3 + t4)) (Fin t5) = Fin (t1 + t2 + t3 + t4 + t5)"
    using q B by (intro fadd_Fin) linarith+
  show ?thesis
    by (simp only: s1 s2 s3 s4)
qed

lemma altman_formula_real:
  assumes c: "altman_a e = Fin xa" "altman_b e = Fin xb" "altman_c e = Fin xc"
    "altman_d e = Fin xd" "altman_e e = Fin xe"
    and b: "\<bar>xa\<bar> \<le> 10 ^ 300" "\<bar>xb\<bar> \<le> 10 ^ 300" "\<bar>xc\<bar> \<le> 10 ^ 300" "\<bar>xd\<bar> \<le> 10 ^ 300"
    "\<bar>xe\<bar> \<le> 10 ^ 300"
  shows "altman_formula e = Fin (k_1_2 * xa + k_1_4 * xb + k_3_3 * xc + k_0_6 * xd + 1 * xe)"
proof -
  define B :: real where "B = 10 ^ 300"
  have B: "1 \<le> B" "100 * B \<le> fl_max"
    unfolding B_def using fl_max_big by simp_all
  note b' = b [folded B_def]
  have one: "\<bar>1 :: real\<bar> \<le> 5" by simp
  note m = fmul_const [OF B(2) b'(1) k_bounds(9)] fmul_const [OF B(2) b'(2) k_bounds(10)]
    fmul_const [OF B(2) b'(3) k_bounds(11)] fmul_const [OF B(2) b'(4) k_bounds(12)]
    fmul_const [OF B(2) b'(5) one]
  have "altman_formula e =
      fadd (fadd (fadd (fadd (Fin (k_1_2 * xa)) (Fin (k_1_4 * xb))) (Fin (k_3_3 * xc)))
        (Fin (k_0_6 * xd))) (Fin (1 * xe))"
    unfolding altman_formula_def c by (simp only: m)
  also have "\<dots> = Fin (k_1_2 * xa + k_1_4 * xb + k_3_3 * xc + k_0_6 * xd + 1 * xe)"
    by (rule altman_terms_bounded [OF B m(2) m(4) m(6) m(8) m(10)])
  finally show ?thesis .
qed

lemma altman_all_or_nothing_env:
  "(list_ex isna (altman_components e) \<longrightarrow>
      altman_z_score e = None \<and>
      altman_reason e =
        Some ''insufficient_fields: missing working capital, retained earnings, EBIT, equity, or revenue data'') \<and>
   (\<not> list_ex isna (altman_components e) \<longrightarrow>
      altman_z_score e = Some (altman_formula e) \<and> altman_reason e = None)"
  by (simp add: altman_z_score_def altman_reason_def)

text \<open>
  Claim C8, as the code has it.  On the success path, with \<open>e\<close> the environment of the
  run: when any of the five components A to E is unknown (NaN), the composite \<open>z\<close> is
  null and the reason is one fixed message, the same whichever components are unknown;
  when all five are present the reason is null and the composite is the formula of the
  five components (the document holds it rounded to four decimals).  The formula is
  evaluated in float arithmetic, left to right; when the components are at most
  \<open>10 ^ 300\<close> in magnitude nothing overflows and its value is
  \<open>1.2 A + 1.4 B + 3.3 C + 0.6 D + 1.0 E\<close>, with the constants the doubles that the
  literals denote.
\<close>

theorem altman_all_or_nothing:
  "error (compute_all tk (Inr raw) a) = None \<Longrightarrow>
   \<exists>e. run_env raw = Some e \<and>
     ad_components (altman (compute_all tk (Inr raw) a)) =
       [(''a'', leaf4 (altman_a e)), (''b'', leaf4 (altman_b e)), (''c'', leaf4 (altman_c e)),
        (''d'', leaf4 (altman_d e)), (''e'', leaf4 (altman_e e))] \<and>
     ((\<exists>x \<in> {altman_a e, altman_b e, altman_c e, altman_d e, altman_e e}. isna x) \<longrightarrow>
        ad_z (altman (compute_all tk (Inr raw) a)) = None \<and>
        ad_reason (altman (compute_all tk (Inr raw) a)) =
          Some ''insufficient_fields: missing working capital, retained earnings, EBIT, equity, or revenue data'') \<and>
     ((\<forall>x \<in> {altman_a e, altman_b e, altman_c e, altman_d e, altman_e e}. \<not> isna x) \<longrightarrow>
        altman_z_score e = Some (altman_formula e) \<and>
        ad_z (altman (compute_all tk (Inr raw) a)) = Some (round4 (altman_formula e)) \<and>
        ad_reason (altman (compute_all tk (Inr raw) a)) = None) \<and>
     (\<forall>xa xb xc xd xe.
        altman_a e = Fin xa \<and> altman_b e = Fin xb \<and> altman_c e = Fin xc \<and>
        altman_d e = Fin xd \<and> altman_e e = Fin xe \<and>
        \<bar>xa\<bar> \<le> 10 ^ 300 \<and> \<bar>xb\<bar> \<le> 10 ^ 300 \<and> \<bar>xc\<bar> \<le> 10 ^ 300 \<and> \<bar>xd\<bar> \<le> 10 ^ 300 \<and>
        \<bar>xe\<bar> \<le> 10 ^ 300 \<longrightarrow>
        altman_formula e = Fin (k_1_2 * xa + k_1_4 * xb + k_3_3 * xc + k_0_6 * xd + 1 * xe))"
proof -
  assume "error (compute_all tk (Inr raw) a) = None"
  then obtain e where env: "run_env raw = Some e"
    and b: "altman (compute_all tk (Inr raw) a) = altman_section e"
    by (rule success_env)
  have ex: "(\<exists>x \<in> {altman_a e, altman_b e, altman_c e, altman_d e, altman_e e}. isna x) =
            list_ex isna (altman_components e)"
    by (auto simp: altman_components_def)
  have al: "(\<forall>x \<in> {altman_a e, altman_b e, altman_c e, altman_d e, altman_e e}. \<not> isna x) =
            (\<not> list_ex isna (altman_components e))"
    by (auto simp: altman_components_def)
  have 1: "ad_components (altman (compute_all tk (Inr raw) a)) =
       [(''a'', leaf4 (altman_a e)), (''b'', leaf4 (altman_b e)), (''c'', leaf4 (altman_c e)),
        (''d'', leaf4 (altman_d e)), (''e'', leaf4 (altman_e e))]"
    by (simp add: b altman_section_def)
  have 2: "(\<exists>x \<in> {altman_a e, altman_b e, altman_c e, altman_d e, altman_e e}. isna x) \<longrightarrow>
        ad_z (altman (compute_all tk (Inr raw) a)) = None \<and>
        ad_reason (altman (compute_all tk (Inr raw) a)) =
          Some ''insufficient_fields: missing working capital, retained earnings, EBIT, equity, or revenue data''"
    unfolding ex b using altman_all_or_nothing_env [of e] by (simp add: altman_section_def)
  have 3: "(\<forall>x \<in> {altman_a e, altman_b e, altman_c e, altman_d e, altman_e e}. \<not> isna x) \<longrightarrow>
        altman_z_score e = Some (altman_formula e) \<and>
        ad_z (altman (compute_all tk (Inr raw) a)) = Some (round4 (altman_formula e)) \<and>
        ad_reason (altman (compute_all tk (Inr raw) a)) = None"
    unfolding al b using altman_all_or_nothing_env [of e] by (simp add: altman_section_def)
  have 4: "\<forall>xa xb xc xd xe.
        altman_a e = Fin xa \<and> altman_b e = Fin xb \<and> altman_c e = Fin xc \<and>
        altman_d e = Fin xd \<and> altman_e e = Fin xe \<and>
        \<bar>xa\<bar> \<le> 10 ^ 300 \<and> \<bar>xb\<bar> \<le> 10 ^ 300 \<and> \<bar>xc\<bar> \<le> 10 ^ 300 \<and> \<bar>xd\<bar> \<le> 10 ^ 300 \<and>
        \<bar>xe\<bar> \<le> 10 ^ 300 \<longrightarrow>
        altman_formula e = Fin (k_1_2 * xa + k_1_4 * xb + k_3_3 * xc + k_0_6 * xd + 1 * xe)"
    by (intro allI impI altman_formula_real) blast+
  from env 1 2 3 4 show ?thesis by blast
qed


section \<open>The leaves of the document\<close>



lemma nan_or_fin_safe_div [simp]: "nan_or_fin (safe_div x y NaN)"
  using safe_div_nan_or_fin [of x y] by (auto simp: nan_or_fin_def isna_def isfinite_def)

lemma nan_or_fin_NaN [simp]: "nan_or_fin NaN"
  by (simp add: nan_or_fin_def isna_def)

lemma leaf4_finite: "nan_or_fin x \<Longrightarrow> finite_leaf (leaf4 x)"
  by (cases x) (auto simp: nan_or_fin_def leaf4_def finite_leaf_def isna_def isfinite_def)

lemma leaf4_not_nan: "leaf4 x \<noteq> Some NaN"
  by (cases x) (auto simp: leaf4_def isna_def)

lemma alpha_leaf_not_nan: "alpha_leaf a \<noteq> Some NaN"
  by (cases a) (auto simp: alpha_leaf_def leaf4_not_nan)

lemma metrics_nan_or_fin:
  "nan_or_fin (current_ratio e)" "nan_or_fin (quick_ratio e)" "nan_or_fin (debt_to_equity e)"
  "nan_or_fin (roe e)" "nan_or_fin (roa e)" "nan_or_fin (npm e)" "nan_or_fin (asset_turnover e)"
  "nan_or_fin (equity_multiplier e)" "nan_or_fin (tax_burden e)" "nan_or_fin (interest_burden e)"
  "nan_or_fin (operating_margin e)" "nan_or_fin (pe e)" "nan_or_fin (pb e)" "nan_or_fin (ps e)"
  "nan_or_fin (peg e)" "nan_or_fin (dividend_yield e)" "nan_or_fin (dividend_payout_ratio e)"
  "nan_or_fin (dividend_coverage_ratio e)"
  "nan_or_fin (DSRI e)" "nan_or_fin (GMI e)" "nan_or_fin (AQI e)" "nan_or_fin (SGI e)"
  "nan_or_fin (DEPI e)" "nan_or_fin (SGAI e)" "nan_or_fin (LVGI e)" "nan_or_fin (TATA e)"
  "nan_or_fin (altman_a e)" "nan_or_fin (altman_b e)" "nan_or_fin (altman_c e)"
  "nan_or_fin (altman_d e)" "nan_or_fin (altman_e e)"
  by (simp_all add: current_ratio_def quick_ratio_def debt_to_equity_def roe_def roa_def npm_def
        asset_turnover_def equity_multiplier_def tax_burden_def interest_burden_def
        operating_margin_def pe_def pb_def ps_def peg_def dividend_yield_def
        dividend_payout_ratio_def dividend_coverage_ratio_def DSRI_def GMI_def AQI_def SGI_def
        DEPI_def SGAI_def LVGI_def TATA_def altman_a_def altman_b_def altman_c_def altman_d_def
        altman_e_def)

lemma ratios_leaves:
  "\<forall>(k, v) \<in> set (ratios_section e). v \<noteq> Some NaN \<and> (k \<noteq> ''roe_adjusted'' \<longrightarrow> finite_leaf v)"
  by (simp add: ratios_section_def leaf4_not_nan leaf4_finite metrics_nan_or_fin)

lemma dupont_leaves:
  "\<forall>(s, sec) \<in> set (dupont_section e). \<forall>(k, v) \<in> set sec.
      v \<noteq> Some NaN \<and> (k \<noteq> ''roe'' \<longrightarrow> finite_leaf v)"
  by (simp add: dupont_section_def leaf4_not_nan leaf4_finite metrics_nan_or_fin)

lemma beneish_leaves: "\<forall>(k, v) \<in> set (bd_components (beneish_section e)). finite_leaf v"
  by (simp add: beneish_section_def beneish_components_def leaf4_finite metrics_nan_or_fin)

lemma altman_leaves: "\<forall>(k, v) \<in> set (ad_components (altman_section e)). finite_leaf v"
  by (simp add: altman_section_def leaf4_finite metrics_nan_or_fin)

lemma price_based_leaves: "\<forall>(k, v) \<in> set (price_based_section e). finite_leaf v"
  by (simp add: price_based_section_def leaf4_finite metrics_nan_or_fin)

lemma dividends_leaves: "\<forall>(k, v) \<in> set (dividends_section e). finite_leaf v"
  by (simp add: dividends_section_def leaf4_finite metrics_nan_or_fin)

lemma check_period_shape:
  "(\<exists>msg. check_period df tol col = Failed False PInf msg) \<or>
   (\<exists>okv d ta tl' te. check_period df tol col = Checked okv d ta tl' te (fadd tl' te) \<and>
       fgt ta (Fin 0))"
  by (auto simp: check_period_def Let_def split: option.splits)

lemma validation_shape:
  "\<forall>(p, c) \<in> set (check_accounting_equation df tol).
     (\<exists>msg. c = Failed False PInf msg) \<or>
     (\<exists>okv d ta tl' te. c = Checked okv d ta tl' te (fadd tl' te) \<and> fgt ta (Fin 0))"
  using check_period_shape [of df tol] by (auto simp: check_accounting_equation_def)

text \<open>
  Claim C4, as the code has it.  On the success path every leaf of the ratios, DuPont,
  price-based and dividend sections, of the Beneish and Altman components and the alpha
  leaf is null or a float that is not NaN; every such leaf that is a result of
  \<open>safe_div\<close>, that is all of them but the products \<open>roe_adjusted\<close> and \<open>roe\<close>
  (3-step and 5-step) and alpha, is null or finite.  The validation section is stored
  as the validator returns it: a period's entry is either the failed result, whose
  \<open>delta\<close> is \<open>+inf\<close>, or the checked result with its floats as computed.
\<close>

theorem output_leaves:
  "error (compute_all tk (Inr raw) a) = None \<Longrightarrow>
   (\<forall>(k, v) \<in> set (ratios (compute_all tk (Inr raw) a)).
      v \<noteq> Some NaN \<and> (k \<noteq> ''roe_adjusted'' \<longrightarrow> finite_leaf v)) \<and>
   (\<forall>(s, sec) \<in> set (dupont (compute_all tk (Inr raw) a)). \<forall>(k, v) \<in> set sec.
      v \<noteq> Some NaN \<and> (k \<noteq> ''roe'' \<longrightarrow> finite_leaf v)) \<and>
   (\<forall>(k, v) \<in> set (bd_components (beneish (compute_all tk (Inr raw) a))). finite_leaf v) \<and>
   (\<forall>(k, v) \<in> set (ad_components (altman (compute_all tk (Inr raw) a))). finite_leaf v) \<and>
   ad_z_prime (altman (compute_all tk (Inr raw) a)) = None \<and>
   (\<forall>(k, v) \<in> set (price_based (compute_all tk (Inr raw) a)). finite_leaf v) \<and>
   (\<forall>(k, v) \<in> set (dividends (compute_all tk (Inr raw) a)). finite_leaf v) \<and>
   alpha (compute_all tk (Inr raw) a) \<noteq> Some NaN \<and>
   (\<forall>(p, c) \<in> set (validation (compute_all tk (Inr raw) a)).
      (\<exists>msg. c = Failed False PInf msg) \<or>
      (\<exists>okv d ta tl' te. c = Checked okv d ta tl' te (fadd tl' te) \<and> fgt ta (Fin 0)))"
proof -
  assume "error (compute_all tk (Inr raw) a) = None"
  then obtain e where
    s: "validation (compute_all tk (Inr raw) a) = check_accounting_equation (e_balance e) default_tol"
    "ratios (compute_all tk (Inr raw) a) = ratios_section e"
    "dupont (compute_all tk (Inr raw) a) = dupont_section e"
    "beneish (compute_all tk (Inr raw) a) = beneish_section e"
    "altman (compute_all tk (Inr raw) a) = altman_section e"
    "price_based (compute_all tk (Inr raw) a) = price_based_section e"
    "dividends (compute_all tk (Inr raw) a) = dividends_section e"
    "alpha (compute_all tk (Inr raw) a) = alpha_leaf a"
    by (rule success_env)
  have z: "ad_z_prime (altman_section e) = None" by (simp add: altman_section_def)
  show ?thesis
    unfolding s
    by (intro conjI ratios_leaves dupont_leaves beneish_leaves altman_leaves z price_based_leaves
          dividends_leaves alpha_leaf_not_nan validation_shape)
qed


section \<open>The success path on the example inputs\<close>


lemma success_if:
  assumes "2 \<le> length (common_years raw)"
    and "info_get (info raw) ''sharesOutstanding'' (Some NaN) \<noteq> None"
  shows "error (compute_all tk (Inr raw) a) = None"
proof -
  let ?cy = "common_years raw"
  have "length (rev (sort ?cy)) = length ?cy" by simp
  with assms(1) obtain y0 y1 ys where ys: "rev (sort ?cy) = y0 # y1 # ys"
    by (cases "rev (sort ?cy)"; cases "tl (rev (sort ?cy))") auto
  obtain s where s: "info_get (info raw) ''sharesOutstanding'' (Some NaN) = Some s"
    using assms(2) by auto
  show ?thesis
    using assms(1) ys s
    by (simp add: compute_all_def compute_body_def select_two_years_def Let_def env_of_def
          piotroski_signals_def F7_def shares_def)
qed

lemma run_env_eval:
  assumes "common_years raw = cy" "rev (sort cy) = y0 # y1 # ys"
  shows "run_env raw =
           Some \<lparr> e_income = normalize_field_names (income raw),
                  e_balance = normalize_field_names (balance raw),
                  e_cashflow = normalize_field_names (cashflow raw),
                  e_info = info raw, y_t = y0, y_t1 = y1 \<rparr>"
proof -
  have "length (rev (sort cy)) = length cy" by simp
  with assms(2) have "2 \<le> length cy" by simp
  then show ?thesis
    using assms by (simp add: run_env_def select_two_years_def Let_def env_of_def)
qed

lemma ex_common_years: "common_years ex_raw = [2023, 2022]"
  by (simp add: common_years_def ex_raw_def ex_income_def ex_balance_def ex_cashflow_def)

lemma ex_sorted: "rev (sort [2023, 2022 :: nat]) = [2023, 2022]"
  by (simp add: sort_key_def)

lemma ex_balance_norm:
  "normalize_field_names ex_balance =
     \<lparr> columns = [2023, 2022, 2021],
       index = [(''TotalAssets'', [Fin 1000, Fin 900, NaN]),
                (''TotalLiabilities'', [Fin 400, Fin 380, Fin 350]),
                (''TotalStockholderEquity'', [Fin 600, Fin 520, Fin 500]),
                (''TotalCurrentAssets'', [Fin 500, Fin 450, NaN]),
                (''TotalCurrentLiabilities'', [Fin 250, Fin 240, NaN]),
                (''Inventory'', [Fin 100, Fin 90, NaN]),
                (''NetPPE'', [Fin 300, Fin 280, NaN]),
                (''RetainedEarnings'', [Fin 200, Fin 150, NaN]),
                (''NetReceivables'', [Fin 120, Fin 100, NaN])] \<rparr>"
  by code_simp


section \<open>The example environments\<close>


lemma ex_income_norm: "normalize_field_names ex_income = ex_income_canonical"
  by code_simp

lemma ex_balance_canon: "normalize_field_names ex_balance = ex_balance_canonical"
  by code_simp

lemma ex_cashflow_norm: "normalize_field_names ex_cashflow = ex_cashflow_canonical"
  by code_simp

lemma ex_no_liabilities_balance_norm:
  "normalize_field_names (balance ex_raw_no_liabilities) = e_balance ex_env_no_liabilities"
  by code_simp

lemma ex_run_env: "run_env ex_raw = Some ex_env"
  using run_env_eval [OF ex_common_years ex_sorted]
  by (simp add: ex_raw_def ex_income_norm ex_balance_canon ex_cashflow_norm ex_env_def)

lemma ex_no_liabilities_common_years: "common_years ex_raw_no_liabilities = [2023, 2022]"
  by (simp add: common_years_def ex_raw_no_liabilities_def ex_raw_def ex_income_def ex_cashflow_def)

lemma ex_no_liabilities_run_env: "run_env ex_raw_no_liabilities = Some ex_env_no_liabilities"
  using run_env_eval [OF ex_no_liabilities_common_years ex_sorted] ex_no_liabilities_balance_norm
  by (simp add: ex_raw_no_liabilities_def ex_raw_def ex_income_norm ex_cashflow_norm
        ex_env_no_liabilities_def ex_env_def)

lemma ex_fields:
  "TotalRevenue_t ex_env = Fin 1000"
  "TotalRevenue_t1 ex_env = Fin 900"
  "GrossProfit_t ex_env = Fin 400"
  "GrossProfit_t1 ex_env = Fin 350"
  "OperatingIncome_t ex_env = Fin 200"
  "NetIncome_t ex_env = Fin 150"
  "NetIncome_t1 ex_env = Fin 100"
  "PretaxIncome_t ex_env = Fin 180"
  "SellingGeneralAdministrative_t ex_env = Fin 100"
  "SellingGeneralAdministrative_t1 ex_env = Fin 95"
  "TotalAssets_t ex_env = Fin 1000"
  "TotalAssets_t1 ex_env = Fin 900"
  "TotalLiabilities_t ex_env = Fin 400"
  "TotalLiabilities_t1 ex_env = Fin 380"
  "TotalStockholderEquity_t ex_env = Fin 600"
  "TotalStockholderEquity_t1 ex_env = Fin 520"
  "TotalCurrentAssets_t ex_env = Fin 500"
  "TotalCurrentAssets_t1 ex_env = Fin 450"
  "TotalCurrentLiabilities_t ex_env = Fin 250"
  "TotalCurrentLiabilities_t1 ex_env = Fin 240"
  "Inventory_t ex_env = Fin 100"
  "NetPPE_t ex_env = Fin 300"
  "NetPPE_t1 ex_env = Fin 280"
  "RetainedEarnings_t ex_env = Fin 200"
  "NetReceivables_t ex_env = Fin 120"
  "NetReceivables_t1 ex_env = Fin 100"
  "TotalCashFromOperatingActivities_t ex_env = Fin 220"
  "Depreciation_t ex_env = Fin 50"
  "Depreciation_t1 ex_env = Fin 45"
  "CashDividendsPaid_t ex_env = Fin (- 30)"
  "retained_earnings ex_env = Fin 200"
  by (simp_all add: TotalRevenue_t_def TotalRevenue_t1_def GrossProfit_t_def GrossProfit_t1_def OperatingIncome_t_def NetIncome_t_def NetIncome_t1_def PretaxIncome_t_def SellingGeneralAdministrative_t_def SellingGeneralAdministrative_t1_def TotalAssets_t_def TotalAssets_t1_def TotalLiabilities_t_def TotalLiabilities_t1_def TotalStockholderEquity_t_def TotalStockholderEquity_t1_def TotalCurrentAssets_t_def TotalCurrentAssets_t1_def TotalCurrentLiabilities_t_def TotalCurrentLiabilities_t1_def Inventory_t_def NetPPE_t_def NetPPE_t1_def RetainedEarnings_t_def NetReceivables_t_def NetReceivables_t1_def TotalCashFromOperatingActivities_t_def Depreciation_t_def Depreciation_t1_def CashDividendsPaid_t_def retained_earnings_def
        ex_env_no_liabilities_def ex_env_def ex_income_canonical_def ex_balance_canonical_def
        ex_cashflow_canonical_def safe_get_field.simps series_at_def isna_def)

lemma ex_no_liabilities_fields:
  "TotalRevenue_t ex_env_no_liabilities = Fin 1000"
  "TotalRevenue_t1 ex_env_no_liabilities = Fin 900"
  "GrossProfit_t ex_env_no_liabilities = Fin 400"
  "GrossProfit_t1 ex_env_no_liabilities = Fin 350"
  "OperatingIncome_t ex_env_no_liabilities = Fin 200"
  "NetIncome_t ex_env_no_liabilities = Fin 150"
  "NetIncome_t1 ex_env_no_liabilities = Fin 100"
  "PretaxIncome_t ex_env_no_liabilities = Fin 180"
  "SellingGeneralAdministrative_t ex_env_no_liabilities = Fin 100"
  "SellingGeneralAdministrative_t1 ex_env_no_liabilities = Fin 95"
  "TotalAssets_t ex_env_no_liabilities = Fin 1000"
  "TotalAssets_t1 ex_env_no_liabilities = Fin 900"
  "TotalLiabilities_t ex_env_no_liabilities = Fin 0"
  "TotalLiabilities_t1 ex_env_no_liabilities = Fin 0"
  "TotalStockholderEquity_t ex_env_no_liabilities = Fin 1000"
  "TotalStockholderEquity_t1 ex_env_no_liabilities = Fin 900"
  "TotalCurrentAssets_t ex_env_no_liabilities = Fin 500"
  "TotalCurrentAssets_t1 ex_env_no_liabilities = Fin 450"
  "TotalCurrentLiabilities_t ex_env_no_liabilities = Fin 250"
  "TotalCurrentLiabilities_t1 ex_env_no_liabilities = Fin 240"
  "Inventory_t ex_env_no_liabilities = NaN"
  "NetPPE_t ex_env_no_liabilities = NaN"
  "NetPPE_t1 ex_env_no_liabilities = NaN"
  "RetainedEarnings_t ex_env_no_liabilities = Fin 200"
  "NetReceivables_t ex_env_no_liabilities = NaN"
  "NetReceivables_t1 ex_env_no_liabilities = NaN"
  "TotalCashFromOperatingActivities_t ex_env_no_liabilities = Fin 220"
  "Depreciation_t ex_env_no_liabilities = Fin 50"
  "Depreciation_t1 ex_env_no_liabilities = Fin 45"
  "CashDividendsPaid_t ex_env_no_liabilities = Fin (- 30)"
  "retained_earnings ex_env_no_liabilities = Fin 200"
  by (simp_all add: TotalRevenue_t_def TotalRevenue_t1_def GrossProfit_t_def GrossProfit_t1_def OperatingIncome_t_def NetIncome_t_def NetIncome_t1_def PretaxIncome_t_def SellingGeneralAdministrative_t_def SellingGeneralAdministrative_t1_def TotalAssets_t_def TotalAssets_t1_def TotalLiabilities_t_def TotalLiabilities_t1_def TotalStockholderEquity_t_def TotalStockholderEquity_t1_def TotalCurrentAssets_t_def TotalCurrentAssets_t1_def TotalCurrentLiabilities_t_def TotalCurrentLiabilities_t1_def Inventory_t_def NetPPE_t_def NetPPE_t1_def RetainedEarnings_t_def NetReceivables_t_def NetReceivables_t1_def TotalCashFromOperatingActivities_t_def Depreciation_t_def Depreciation_t1_def CashDividendsPaid_t_def retained_earnings_def
        ex_env_no_liabilities_def ex_env_def ex_income_canonical_def ex_balance_canonical_def
        ex_cashflow_canonical_def safe_get_field.simps series_at_def isna_def)


lemma safe_div_NaN_left [simp]: "safe_div NaN b NaN = NaN"
  by (simp add: safe_div_def isna_def)

lemma safe_div_NaN_right [simp]: "safe_div a NaN NaN = NaN"
  by (simp add: safe_div_def isna_def)

lemmas ex_arith = safe_div_Fin_Fin fsub_def fl_of_def fl_max_def isna_def

lemma ex_no_liabilities_altman:
  "altman_a ex_env_no_liabilities = Fin (1 / 4)"
  "altman_b ex_env_no_liabilities = Fin (1 / 5)"
  "altman_c ex_env_no_liabilities = Fin (1 / 5)"
  "altman_d ex_env_no_liabilities = NaN"
  "altman_e ex_env_no_liabilities = Fin 1"
  by (simp_all add: altman_a_def altman_b_def altman_c_def altman_d_def altman_e_def
        working_capital_def ebit_def ex_no_liabilities_fields ex_arith)

lemma ex_altman_present: "\<not> list_ex isna (altman_components ex_env)"
  by (simp add: altman_components_def altman_a_def altman_b_def altman_c_def altman_d_def
        altman_e_def working_capital_def ebit_def ex_fields ex_arith)



lemma round4_quarter: "round4 (Fin (1 / 4)) = Fin (1 / 4)" "round4 (Fin (1 / 5)) = Fin (1 / 5)"
  "round4 (Fin 1) = Fin 1"
  by (simp_all add: round_half_even_def Let_def)


section \<open>The claims on the example inputs\<close>


lemma ex_assets_2023:
  "safe_get_field (normalize_field_names ex_balance) [''TotalAssets''] (Some 2023) NaN = Fin 1000"
  "safe_get_field (normalize_field_names ex_balance) [''TotalLiabilities''] (Some 2023) NaN = Fin 400"
  "safe_get_field (normalize_field_names ex_balance) [''TotalStockholderEquity''] (Some 2023) NaN = Fin 600"
  "safe_get_field (normalize_field_names ex_balance) [''TotalAssets''] (Some 2021) NaN = NaN"
  "safe_get_field (normalize_field_names ex_balance) [''TotalLiabilities''] (Some 2021) NaN = Fin 350"
  "safe_get_field (normalize_field_names ex_balance) [''TotalStockholderEquity''] (Some 2021) NaN = Fin 500"
  by (simp_all add: ex_balance_norm safe_get_field.simps series_at_def isna_def)

lemma ex_cols: "2023 \<in> set (columns (normalize_field_names ex_balance))"
  "2021 \<in> set (columns (normalize_field_names ex_balance))"
  by (simp_all add: ex_balance_norm)






lemma ex_one_period_card:
  "card (set (columns (income ex_raw_one_period)) \<inter> set (columns (balance ex_raw_one_period)) \<inter>
         set (columns (cashflow ex_raw_one_period))) = 1"
  by (simp add: ex_raw_one_period_def ex_raw_def ex_income_def ex_balance_def)

text \<open>
  Claim C2 on the example whose cash-flow statement has the single period 2023: one
  period is common to the three tables.
\<close>

theorem compute_all_insufficient_history_witness:
  "compute_all ''EX'' (Inr ex_raw_one_period) None =
     error_document ''EX'' ''Insufficient common years: 1 found'' \<and>
   ticker (compute_all ''EX'' (Inr ex_raw_one_period) None) = ''EX'' \<and>
   error (compute_all ''EX'' (Inr ex_raw_one_period) None) = Some ''Insufficient common years: 1 found'' \<and>
   ratios (compute_all ''EX'' (Inr ex_raw_one_period) None) = [] \<and>
   doc_notes (compute_all ''EX'' (Inr ex_raw_one_period) None) =
     [''Error: '' @ ''Insufficient common years: 1 found'']"
proof -
  have n: "(1::nat) < 2" by simp
  have m: "''Insufficient common years: 1 found'' =
           ''Insufficient common years: '' @ [''0123456789'' ! 1] @ '' found''"
    by simp
  show ?thesis
    by (rule compute_all_insufficient_history [OF ex_one_period_card n m])
qed

lemma ex_success: "error (compute_all tk (Inr ex_raw) a) = None"
proof (rule success_if)
  show "2 \<le> length (common_years ex_raw)" by (simp add: ex_common_years)
  show "info_get (info ex_raw) ''sharesOutstanding'' (Some NaN) \<noteq> None"
    by (simp add: ex_raw_def ex_info_def info_get_def)
qed

lemma ex_no_shares_common_years: "common_years ex_raw_no_shares = [2023, 2022]"
  by (simp add: common_years_def ex_raw_no_shares_def ex_raw_def ex_income_def ex_balance_def
        ex_cashflow_def)

lemma ex_no_shares_success: "error (compute_all tk (Inr ex_raw_no_shares) a) = None"
proof (rule success_if)
  show "2 \<le> length (common_years ex_raw_no_shares)" by (simp add: ex_no_shares_common_years)
  show "info_get (info ex_raw_no_shares) ''sharesOutstanding'' (Some NaN) \<noteq> None"
    by (simp add: ex_raw_no_shares_def ex_raw_def info_get_def)
qed

text \<open>
  Claim C7 on the example company: the run is on the success path.
\<close>

theorem piotroski_score_sum_witness:
  "error (compute_all ''EX'' (Inr ex_raw) None) = None \<and>
   (\<exists>f1 f2 f3 f4 f5 f6 f7 f8 f9.
     signals (piotroski (compute_all ''EX'' (Inr ex_raw) None)) =
       [(''F1'', f1), (''F2'', f2), (''F3'', f3), (''F4'', f4), (''F5'', f5),
        (''F6'', f6), (''F7'', f7), (''F8'', f8), (''F9'', f9)] \<and>
     (\<forall>f \<in> {f1, f2, f3, f4, f5, f6, f7, f8, f9}. f = 0 \<or> f = 1) \<and>
     score (piotroski (compute_all ''EX'' (Inr ex_raw) None)) =
       Some (f1 + f2 + f3 + f4 + f5 + f6 + f7 + f8 + f9) \<and>
     f1 + f2 + f3 + f4 + f5 + f6 + f7 + f8 + f9 \<le> 9 \<and>
     fscore_display (piotroski (compute_all ''EX'' (Inr ex_raw) None)) =
       [''0123456789'' ! (f1 + f2 + f3 + f4 + f5 + f6 + f7 + f8 + f9)] @ ''.00/9'')"
  using piotroski_score_sum [OF ex_success, of "''EX''" None] ex_success [of "''EX''" None]
  by blast

text \<open>
  Claim C6 on the example company, whose shares outstanding are 100: F7 is 1.
\<close>

theorem piotroski_f7_shares_witness:
  "error (compute_all ''EX'' (Inr ex_raw) None) = None \<and>
   map_of (signals (piotroski (compute_all ''EX'' (Inr ex_raw) None))) ''F7'' = Some 1"
  using piotroski_f7_shares [OF ex_success, of "''EX''" None] ex_success [of "''EX''" None]
  by (simp add: ex_raw_def ex_info_def info_get_def isna_def)

text \<open>
  Claim C6 as stated fails when the market info has no \<open>sharesOutstanding\<close> entry:
  the run is on the success path and F7 is 0.
\<close>

theorem piotroski_f7_unknown_shares_counterexample:
  "error (compute_all ''EX'' (Inr ex_raw_no_shares) None) = None \<and>
   map_of (signals (piotroski (compute_all ''EX'' (Inr ex_raw_no_shares) None))) ''F7'' = Some 0 \<and>
   map_of (signals (piotroski (compute_all ''EX'' (Inr ex_raw_no_shares) None))) ''F7'' \<noteq> Some 1"
  using f7_signal_of_shares [OF ex_no_shares_success, of "''EX''" None]
        ex_no_shares_success [of "''EX''" None]
  by (simp add: ex_raw_no_shares_def ex_raw_def info_get_def isna_def)


text \<open>
  Claim C10 on the example without a \<open>sharesOutstanding\<close> entry: the score is a number
  and F7 is 0.
\<close>

theorem piotroski_unknown_is_zero_witness:
  "error (compute_all ''EX'' (Inr ex_raw_no_shares) None) = None \<and>
   score (piotroski (compute_all ''EX'' (Inr ex_raw_no_shares) None)) \<noteq> None \<and>
   map_of (signals (piotroski (compute_all ''EX'' (Inr ex_raw_no_shares) None))) ''F7'' = Some 0"
proof -
  have ok: "error (compute_all ''EX'' (Inr ex_raw_no_shares) None) = None"
    by (rule ex_no_shares_success)
  from piotroski_unknown_is_zero [OF ok]
  obtain e f7 where env: "run_env ex_raw_no_shares = Some e"
    and sigs: "signals (piotroski (compute_all ''EX'' (Inr ex_raw_no_shares) None)) =
       [(''F1'', F1 e), (''F2'', F2 e), (''F3'', F3 e), (''F4'', F4 e), (''F5'', F5 e),
        (''F6'', F6 e), (''F7'', f7), (''F8'', F8 e), (''F9'', F9 e)]"
    and sc: "score (piotroski (compute_all ''EX'' (Inr ex_raw_no_shares) None)) =
       Some (F1 e + F2 e + F3 e + F4 e + F5 e + F6 e + f7 + F8 e + F9 e)"
    and f7: "isna (as_float (shares e)) \<longrightarrow> f7 = 0"
    by blast
  have "e_info e = info ex_raw_no_shares" using env by (rule run_env_info)
  then have "isna (as_float (shares e))"
    by (simp add: shares_def ex_raw_no_shares_def ex_raw_def info_get_def as_float_def isna_def)
  with f7 have "f7 = 0" by simp
  with ok sigs sc show ?thesis by simp
qed


lemma ex_no_liabilities_success: "error (compute_all tk (Inr ex_raw_no_liabilities) a) = None"
proof (rule success_if)
  show "2 \<le> length (common_years ex_raw_no_liabilities)"
    by (simp add: ex_no_liabilities_common_years)
  show "info_get (info ex_raw_no_liabilities) ''sharesOutstanding'' (Some NaN) \<noteq> None"
    by (simp add: ex_raw_no_liabilities_def ex_raw_def ex_info_def info_get_def)
qed


text \<open>
  Claim C8 on two runs.  With zero liabilities component D is unknown: the composite is
  null and the reason is the fixed message.  On the full example the five components
  are present and the composite is reported, with no reason.
\<close>

theorem altman_all_or_nothing_witness:
  "error (compute_all ''EX'' (Inr ex_raw_no_liabilities) None) = None \<and>
   ad_z (altman (compute_all ''EX'' (Inr ex_raw_no_liabilities) None)) = None \<and>
   ad_reason (altman (compute_all ''EX'' (Inr ex_raw_no_liabilities) None)) =
     Some ''insufficient_fields: missing working capital, retained earnings, EBIT, equity, or revenue data'' \<and>
   error (compute_all ''EX'' (Inr ex_raw) None) = None \<and>
   ad_z (altman (compute_all ''EX'' (Inr ex_raw) None)) \<noteq> None \<and>
   ad_reason (altman (compute_all ''EX'' (Inr ex_raw) None)) = None"
proof -
  have ok1: "error (compute_all ''EX'' (Inr ex_raw_no_liabilities) None) = None"
    by (rule ex_no_liabilities_success)
  have ok2: "error (compute_all ''EX'' (Inr ex_raw) None) = None"
    by (rule ex_success)
  from altman_all_or_nothing [OF ok1] obtain e1 where
    e1: "run_env ex_raw_no_liabilities = Some e1"
    and m1: "(\<exists>x \<in> {altman_a e1, altman_b e1, altman_c e1, altman_d e1, altman_e e1}. isna x) \<longrightarrow>
        ad_z (altman (compute_all ''EX'' (Inr ex_raw_no_liabilities) None)) = None \<and>
        ad_reason (altman (compute_all ''EX'' (Inr ex_raw_no_liabilities) None)) =
          Some ''insufficient_fields: missing working capital, retained earnings, EBIT, equity, or revenue data''"
    by blast
  from e1 have e1': "e1 = ex_env_no_liabilities" by (simp add: ex_no_liabilities_run_env)
  have "isna (altman_d e1)" by (simp add: e1' ex_no_liabilities_altman isna_def)
  with m1 have r1: "ad_z (altman (compute_all ''EX'' (Inr ex_raw_no_liabilities) None)) = None"
    "ad_reason (altman (compute_all ''EX'' (Inr ex_raw_no_liabilities) None)) =
       Some ''insufficient_fields: missing working capital, retained earnings, EBIT, equity, or revenue data''"
    by simp_all
  from altman_all_or_nothing [OF ok2] obtain e2 where
    e2: "run_env ex_raw = Some e2"
    and m2: "(\<forall>x \<in> {altman_a e2, altman_b e2, altman_c e2, altman_d e2, altman_e e2}. \<not> isna x) \<longrightarrow>
        altman_z_score e2 = Some (altman_formula e2) \<and>
        ad_z (altman (compute_all ''EX'' (Inr ex_raw) None)) = Some (round4 (altman_formula e2)) \<and>
        ad_reason (altman (compute_all ''EX'' (Inr ex_raw) None)) = None"
    by blast
  from e2 have e2': "e2 = ex_env" by (simp add: ex_run_env)
  have "\<forall>x \<in> {altman_a e2, altman_b e2, altman_c e2, altman_d e2, altman_e e2}. \<not> isna x"
    using ex_altman_present by (simp add: e2' altman_components_def)
  with m2 have r2: "ad_z (altman (compute_all ''EX'' (Inr ex_raw) None)) \<noteq> None"
    "ad_reason (altman (compute_all ''EX'' (Inr ex_raw) None)) = None"
    by simp_all
  from ok1 ok2 r1 r2 show ?thesis by simp
qed

lemma ex_altman_reason_run:
  "error (compute_all ''EX'' (Inr ex_raw_no_liabilities) None) = None \<and>
   ad_components (altman (compute_all ''EX'' (Inr ex_raw_no_liabilities) None)) =
     [(''a'', Some (Fin (1 / 4))), (''b'', Some (Fin (1 / 5))), (''c'', Some (Fin (1 / 5))),
      (''d'', None), (''e'', Some (Fin 1))] \<and>
   ad_reason (altman (compute_all ''EX'' (Inr ex_raw_no_liabilities) None)) =
     Some ''insufficient_fields: missing working capital, retained earnings, EBIT, equity, or revenue data'' \<and>
   ad_reason (altman (compute_all ''EX'' (Inr ex_raw_no_liabilities) None)) \<noteq>
     Some (''insufficient_fields: '' @ join '', '' [''d''])"
proof -
  have ok: "error (compute_all ''EX'' (Inr ex_raw_no_liabilities) None) = None"
    by (rule ex_no_liabilities_success)
  then obtain e where e: "run_env ex_raw_no_liabilities = Some e"
    and al: "altman (compute_all ''EX'' (Inr ex_raw_no_liabilities) None) = altman_section e"
    by (rule success_env)
  from e have e': "e = ex_env_no_liabilities" by (simp add: ex_no_liabilities_run_env)
  have c: "ad_components (altman_section ex_env_no_liabilities) =
     [(''a'', Some (Fin (1 / 4))), (''b'', Some (Fin (1 / 5))), (''c'', Some (Fin (1 / 5))),
      (''d'', None), (''e'', Some (Fin 1))]"
    by (simp add: altman_section_def ex_no_liabilities_altman leaf4_def isna_def
          round_half_even_def Let_def)
  have "list_ex isna (altman_components ex_env_no_liabilities)"
    by (simp add: altman_components_def ex_no_liabilities_altman isna_def)
  then have r: "ad_reason (altman_section ex_env_no_liabilities) =
     Some ''insufficient_fields: missing working capital, retained earnings, EBIT, equity, or revenue data''"
    using altman_all_or_nothing_env [of ex_env_no_liabilities] by (simp add: altman_section_def)
  from ok c r show ?thesis by (simp add: al e')
qed

lemma validation_lookup:
  "col \<in> set (columns df) \<Longrightarrow>
   map_of (check_accounting_equation df tol) col = Some (check_period df tol col)"
  by (simp add: check_accounting_equation_def map_of_map_restrict)

text \<open>
  Claim C4 on the full example, which is on the success path.
\<close>

theorem output_leaves_witness:
  "error (compute_all ''EX'' (Inr ex_raw) None) = None \<and>
   (\<exists>v. (''current'', v) \<in> set (ratios (compute_all ''EX'' (Inr ex_raw) None)) \<and>
        v \<noteq> Some NaN \<and> finite_leaf v) \<and>
   (\<exists>v. (''roe_adjusted'', v) \<in> set (ratios (compute_all ''EX'' (Inr ex_raw) None)) \<and>
        v \<noteq> Some NaN) \<and>
   alpha (compute_all ''EX'' (Inr ex_raw) None) \<noteq> Some NaN"
proof -
  have ok: "error (compute_all ''EX'' (Inr ex_raw) None) = None"
    by (rule ex_success)
  from output_leaves [OF ok]
  have r: "\<forall>(k, v) \<in> set (ratios (compute_all ''EX'' (Inr ex_raw) None)).
      v \<noteq> Some NaN \<and> (k \<noteq> ''roe_adjusted'' \<longrightarrow> finite_leaf v)"
    and al: "alpha (compute_all ''EX'' (Inr ex_raw) None) \<noteq> Some NaN"
    by blast+
  from ok obtain e where "ratios (compute_all ''EX'' (Inr ex_raw) None) = ratios_section e"
    by (rule success_env)
  then have m: "(''current'', leaf4 (current_ratio e)) \<in> set (ratios (compute_all ''EX'' (Inr ex_raw) None))"
    "(''roe_adjusted'', leaf4 (roe_adjusted e)) \<in> set (ratios (compute_all ''EX'' (Inr ex_raw) None))"
    by (simp_all add: ratios_section_def)
  from r m(1) have "leaf4 (current_ratio e) \<noteq> Some NaN \<and> finite_leaf (leaf4 (current_ratio e))"
    by fastforce
  moreover from r m(2) have "leaf4 (roe_adjusted e) \<noteq> Some NaN"
    by fastforce
  ultimately show ?thesis using ok al m by blast
qed

lemma ex_validation_run:
  "error (compute_all ''EX'' (Inr ex_raw) None) = None \<and>
   map_of (validation (compute_all ''EX'' (Inr ex_raw) None)) 2021 =
     Some (Failed False PInf ''Total Assets is zero or missing'') \<and>
   isinf (delta (Failed False PInf ''Total Assets is zero or missing''))"
proof -
  have ok: "error (compute_all ''EX'' (Inr ex_raw) None) = None"
    by (rule ex_success)
  then obtain e where e: "run_env ex_raw = Some e"
    and v: "validation (compute_all ''EX'' (Inr ex_raw) None) =
              check_accounting_equation (e_balance e) default_tol"
    by (rule success_env)
  from e have e': "e = ex_env" by (simp add: ex_run_env)
  have b: "e_balance ex_env = normalize_field_names ex_balance"
    by (simp add: ex_env_def ex_balance_canon)
  have "map_of (check_accounting_equation (normalize_field_names ex_balance) default_tol) 2021 =
        Some (check_period (normalize_field_names ex_balance) default_tol 2021)"
    by (rule validation_lookup) (rule ex_cols(2))
  moreover have "check_period (normalize_field_names ex_balance) default_tol 2021 =
        Failed False PInf ''Total Assets is zero or missing''"
    by (rule check_period_failed) (simp add: ex_assets_2023(4) isna_def)
  ultimately show ?thesis using ok by (simp add: v e' b isinf_def)
qed







lemma ex_altman_values:
  "altman_a ex_env = Fin (1 / 4)" "altman_b ex_env = Fin (1 / 5)" "altman_c ex_env = Fin (1 / 5)"
  "altman_d ex_env = Fin (3 / 2)" "altman_e ex_env = Fin 1"
  by (simp_all add: altman_a_def altman_b_def altman_c_def altman_d_def altman_e_def
        working_capital_def ebit_def ex_fields ex_arith)

lemma ex_altman_formula:
  "altman_formula ex_env = Fin (14141302829943357 / 4503599627370496)"
proof -
  have "altman_formula ex_env =
     Fin (k_1_2 * (1 / 4) + k_1_4 * (1 / 5) + k_3_3 * (1 / 5) + k_0_6 * (3 / 2) + 1 * 1)"
    by (rule altman_formula_real [OF ex_altman_values]) simp_all
  then show ?thesis
    by (simp add: k_1_2_def k_1_4_def k_3_3_def k_0_6_def)
qed

lemma ex_altman_rounded:
  "round4 (Fin (14141302829943357 / 4503599627370496)) = Fin (157 / 50)"
  by (simp add: round_half_even_def Let_def)


lemma ex_altman_rounded_run:
  "error (compute_all ''EX'' (Inr ex_raw) None) = None \<and>
   run_env ex_raw = Some ex_env \<and>
   altman_formula ex_env = Fin (14141302829943357 / 4503599627370496) \<and>
   ad_z (altman (compute_all ''EX'' (Inr ex_raw) None)) = Some (Fin (157 / 50)) \<and>
   ad_z (altman (compute_all ''EX'' (Inr ex_raw) None)) \<noteq> Some (altman_formula ex_env)"
proof -
  have ok: "error (compute_all ''EX'' (Inr ex_raw) None) = None"
    by (rule ex_success)
  then obtain e where e: "run_env ex_raw = Some e"
    and b: "altman (compute_all ''EX'' (Inr ex_raw) None) = altman_section e"
    by (rule success_env)
  from e have e': "e = ex_env" by (simp add: ex_run_env)
  have "altman_z_score ex_env = Some (altman_formula ex_env)"
    using ex_altman_present by (simp add: altman_z_score_def)
  then have m: "ad_z (altman_section ex_env) = Some (Fin (157 / 50))"
    by (simp add: altman_section_def ex_altman_formula ex_altman_rounded del: round4.simps)
  from ok m show ?thesis
    by (simp add: b e' ex_run_env ex_altman_formula)
qed




text \<open>
  Claim C8 as stated fails in the reason and in the value of \<open>z\<close>.  With zero
  liabilities only component D is unknown (A, B, C and E are 0.25, 0.2, 0.2 and 1), and
  the reason is the fixed message, which speaks of working capital, retained earnings,
  EBIT, equity and revenue; it is not the Beneish rule's list of the unknown components,
  \<open>insufficient_fields: d\<close>.  On the full example the five components are present, the
  formula gives \<open>3.1399999...\<close>, and the document holds \<open>3.14\<close>, its value rounded to
  four decimals.
\<close>

theorem altman_reason_fixed_counterexample:
  "(error (compute_all ''EX'' (Inr ex_raw_no_liabilities) None) = None \<and>
    ad_components (altman (compute_all ''EX'' (Inr ex_raw_no_liabilities) None)) =
      [(''a'', Some (Fin (1 / 4))), (''b'', Some (Fin (1 / 5))), (''c'', Some (Fin (1 / 5))),
       (''d'', None), (''e'', Some (Fin 1))] \<and>
    ad_reason (altman (compute_all ''EX'' (Inr ex_raw_no_liabilities) None)) =
      Some ''insufficient_fields: missing working capital, retained earnings, EBIT, equity, or revenue data'' \<and>
    ad_reason (altman (compute_all ''EX'' (Inr ex_raw_no_liabilities) None)) \<noteq>
      Some (''insufficient_fields: '' @ join '', '' [''d''])) \<and>
   (error (compute_all ''EX'' (Inr ex_raw) None) = None \<and>
    run_env ex_raw = Some ex_env \<and>
    altman_formula ex_env = Fin (14141302829943357 / 4503599627370496) \<and>
    ad_z (altman (compute_all ''EX'' (Inr ex_raw) None)) = Some (Fin (157 / 50)) \<and>
    ad_z (altman (compute_all ''EX'' (Inr ex_raw) None)) \<noteq> Some (altman_formula ex_env))"
  by (rule conjI [OF ex_altman_reason_run ex_altman_rounded_run])


lemma ex_large_common_years: "common_years ex_raw_large = [2023, 2022]"
  by (simp add: common_years_def ex_raw_large_def ex_cashflow_def)

lemma ex_large_income_norm:
  "normalize_field_names (income ex_raw_large) = e_income ex_env_large"
  by code_simp

lemma ex_large_balance_norm:
  "normalize_field_names (balance ex_raw_large) = e_balance ex_env_large"
  by code_simp

lemma ex_large_run_env: "run_env ex_raw_large = Some ex_env_large"
proof -
  have c: "cashflow ex_raw_large = ex_cashflow" "info ex_raw_large = ex_info"
    by (simp_all add: ex_raw_large_def)
  have "ex_env_large =
      \<lparr> e_income = e_income ex_env_large, e_balance = e_balance ex_env_large,
        e_cashflow = ex_cashflow_canonical, e_info = ex_info, y_t = 2023, y_t1 = 2022 \<rparr>"
    by (simp add: ex_env_large_def)
  then show ?thesis
    using run_env_eval [OF ex_large_common_years ex_sorted]
    by (simp add: ex_large_income_norm ex_large_balance_norm c ex_cashflow_norm)
qed

lemma ex_large_success: "error (compute_all tk (Inr ex_raw_large) a) = None"
proof (rule success_if)
  show "2 \<le> length (common_years ex_raw_large)"
    by (simp add: ex_large_common_years)
  show "info_get (info ex_raw_large) ''sharesOutstanding'' (Some NaN) \<noteq> None"
    by (simp add: ex_raw_large_def ex_info_def info_get_def)
qed

lemma ex_large_fields:
  "NetIncome_t ex_env_large = Fin (2 ^ 1000)" "TotalRevenue_t ex_env_large = Fin (2 ^ 400)"
  "TotalAssets_t ex_env_large = Fin 1" "TotalAssets_t1 ex_env_large = Fin 1"
  "TotalStockholderEquity_t ex_env_large = Fin (1 / 2 ^ 30)"
  by (simp_all add: NetIncome_t_def TotalRevenue_t_def TotalAssets_t_def TotalAssets_t1_def
        TotalStockholderEquity_t_def ex_env_large_def safe_get_field.simps series_at_def isna_def)

lemma ex_large_factors:
  "npm ex_env_large = Fin (2 ^ 600)" "asset_turnover ex_env_large = Fin (2 ^ 400)"
  "equity_multiplier ex_env_large = Fin (2 ^ 30)"
  by (simp_all add: npm_def asset_turnover_def equity_multiplier_def avg_assets_def avg_def
        isfinite_def ex_large_fields ex_arith)

lemma ex_large_product: "roe_adjusted ex_env_large = PInf"
  by (simp add: roe_adjusted_def roe_dupont_3_def ex_large_factors fl_of_def fl_max_def)


lemma ex_large_run:
  "error (compute_all ''EX'' (Inr ex_raw_large) None) = None \<and>
   map_of (ratios (compute_all ''EX'' (Inr ex_raw_large) None)) ''roe_adjusted'' = Some (Some PInf)"
proof -
  have ok: "error (compute_all ''EX'' (Inr ex_raw_large) None) = None"
    by (rule ex_large_success)
  then obtain e where e: "run_env ex_raw_large = Some e"
    and r: "ratios (compute_all ''EX'' (Inr ex_raw_large) None) = ratios_section e"
    by (rule success_env)
  from e have e': "e = ex_env_large" by (simp add: ex_large_run_env)
  have "map_of (ratios_section ex_env_large) ''roe_adjusted'' = Some (Some PInf)"
    by (simp add: ratios_section_def ex_large_product leaf4_def isna_def)
  with ok show ?thesis by (simp add: r e')
qed

lemma ex_alpha_run:
  "error (compute_all ''EX'' (Inr ex_raw) (Some PInf)) = None \<and>
   alpha (compute_all ''EX'' (Inr ex_raw) (Some PInf)) = Some PInf"
proof -
  have ok: "error (compute_all ''EX'' (Inr ex_raw) (Some PInf)) = None"
    by (rule ex_success)
  then obtain e where "alpha (compute_all ''EX'' (Inr ex_raw) (Some PInf)) = alpha_leaf (Some PInf)"
    by (rule success_env)
  with ok show ?thesis by (simp add: alpha_leaf_def leaf4_def isna_def)
qed

text \<open>
  Claim C4 as stated fails.  In the validation section: the example balance sheet has a
  period, 2021, whose total assets are missing, and the document of the successful run
  holds \<open>delta = +inf\<close> for it.  In a product: with net income \<open>2^1000\<close>, revenue
  \<open>2^400\<close>, total assets 1 and equity \<open>2^-30\<close> the three DuPont factors are \<open>2^600\<close>,
  \<open>2^400\<close> and \<open>2^30\<close>, their product overflows, and the leaf \<open>roe_adjusted\<close> is
  \<open>+inf\<close>.  In alpha: an infinite value returned by \<open>calculate_alpha\<close> is stored as it
  is.
\<close>

theorem validation_infinite_delta_counterexample:
  "(error (compute_all ''EX'' (Inr ex_raw) None) = None \<and>
    map_of (validation (compute_all ''EX'' (Inr ex_raw) None)) 2021 =
      Some (Failed False PInf ''Total Assets is zero or missing'') \<and>
    isinf (delta (Failed False PInf ''Total Assets is zero or missing''))) \<and>
   (error (compute_all ''EX'' (Inr ex_raw_large) None) = None \<and>
    map_of (ratios (compute_all ''EX'' (Inr ex_raw_large) None)) ''roe_adjusted'' = Some (Some PInf)) \<and>
   (error (compute_all ''EX'' (Inr ex_raw) (Some PInf)) = None \<and>
    alpha (compute_all ''EX'' (Inr ex_raw) (Some PInf)) = Some PInf)"
  by (rule conjI [OF ex_validation_run conjI [OF ex_large_run ex_alpha_run]])

end
